theory Spec2Isabelle
  imports Complex_Main "HOL-Library.Log_Nat"
begin

section \<open>Data model of the e-commerce module\<close>

text \<open>
  The class \<open>VlibeBaseEcommerce\<close> keeps no state of its own: every method is a sequence of
  calls to the record store client (\<open>this.db\<close>).  The model makes the store an explicit
  value that is passed in and returned.  JavaScript numbers that hold minor currency units,
  quantities and stock are integers here, and every sum, difference and product the module
  computes on them is rounded as a double rounds it (\<open>fl_int\<close> below).  Timestamps are
  time values in milliseconds.
\<close>

section \<open>JavaScript numbers\<close>

text \<open>
  A JavaScript number is an IEEE 754 double: 53 significant bits, and the result of an
  arithmetic operation is the exact result rounded to the nearest double, a tie going to the
  even significand.  \<open>fl_int\<close> is that rounding on an integer: of the \<open>bitlen\<close> bits of the
  magnitude it keeps the leading 53.  Every integer of magnitude up to \<open>2 ^ 53\<close> is a double
  and is left as it is.  Overflow to \<open>Infinity\<close> (magnitudes of \<open>2 ^ 1024\<close> and more) is
  outside the model.
\<close>

definition fl_int :: "int \<Rightarrow> int" where
  "fl_int n =
     (let a = \<bar>n\<bar>;
          k = nat (bitlen a - 53);
          m = 2 ^ k;
          q = a div m;
          r = a mod m;
          q' = (if 2 * r > m \<or> (2 * r = m \<and> odd q) then q + 1 else q)
      in sgn n * (q' * m))"

text \<open>
  The literal \<open>0.08\<close> is the double \<open>5764607523034235 / 2 ^ 56\<close>.  Rounding to 53 bits
  commutes with the scaling by a power of two, so the double \<open>n * 0.08\<close> is the rounded
  integer \<open>n * 5764607523034235\<close> over \<open>2 ^ 56\<close>.
\<close>

definition times_0_08 :: "int \<Rightarrow> rat" where
  "times_0_08 n = of_int (fl_int (n * 5764607523034235)) / 2 ^ 56"

text \<open>
  \<open>Math.round\<close> returns the integer nearest to its argument, a half rounding towards
  \<open>+\<infinity>\<close>.
\<close>

definition Math_round :: "rat \<Rightarrow> int" where
  "Math_round x = \<lfloor>x + 1 / 2\<rfloor>"

record Product =
  product_id :: string
  product_name :: string
  product_price :: int
  product_stock :: int
  product_isActive :: bool
  product_updated_at :: int

text \<open>\<open>Partial<Product>\<close> as passed to \<open>updateProduct\<close>: a field that is present overrides.\<close>

record ProductUpdates =
  upd_name :: "string option"
  upd_price :: "int option"
  upd_stock :: "int option"
  upd_isActive :: "bool option"

record CartItem =
  ci_productId :: string
  ci_quantity :: int

record OrderItem =
  oi_productId :: string
  oi_name :: string
  oi_quantity :: int
  oi_price :: int

record CalculatedItem =
  cl_productId :: string
  cl_name :: string
  cl_price :: int
  cl_quantity :: int
  cl_lineTotal :: int
  cl_inStock :: bool

record OrderCalculation =
  calc_subtotal :: int
  calc_tax :: int
  calc_shipping :: int
  calc_total :: int
  calc_items :: "CalculatedItem list"

record Address =
  line1 :: string
  line2 :: "string option"
  city :: string
  state :: string
  postalCode :: string
  country :: string

datatype OrderStatus = pending | processing | shipped | delivered | cancelled

record Order =
  order_id :: string
  order_userId :: string
  order_status :: OrderStatus
  order_items :: "OrderItem list"
  order_subtotal :: int
  order_tax :: int
  order_shipping :: int
  order_total :: int
  order_shippingAddress :: Address
  order_billingAddress :: "Address option"
  order_paymentMethodId :: "string option"
  order_notes :: "string option"
  order_created_at :: int
  order_updated_at :: int

record CreateOrderInput =
  in_userId :: string
  in_items :: "CartItem list"
  in_shippingAddress :: Address
  in_billingAddress :: "Address option"
  in_paymentMethodId :: "string option"
  in_notes :: "string option"

text \<open>A row of the \<open>order_items\<close> collection and a row of the \<open>carts\<close> collection.\<close>

record OrderItemRow =
  oir_id :: string
  oir_orderId :: string
  oir_productId :: string
  oir_name :: string
  oir_quantity :: int
  oir_price :: int
  oir_lineTotal :: int
  oir_created_at :: int

record CartRow =
  cart_id :: string
  cart_userId :: string
  cart_productId :: string
  cart_quantity :: int
  cart_created_at :: int
  cart_updated_at :: int

text \<open>
  The four collections the module uses.  A collection is a list: \<open>query\<close> returns rows in
  the order of the list and the code reads \<open>existingCart[0]\<close>.
\<close>

record db =
  products :: "Product list"
  orders :: "Order list"
  order_items_rows :: "OrderItemRow list"
  carts :: "CartRow list"

text \<open>
  What a call reads from its host: \<open>env_now\<close> is the time value \<open>new Date()\<close> returns during
  the call, and \<open>env_uuid n\<close> is the result of the \<open>n\<close>-th call of \<open>crypto.randomUUID()\<close>.
\<close>

record env =
  env_now :: int
  env_uuid :: "nat \<Rightarrow> string"

text \<open>
  Every \<open>throw new Error(...)\<close> of the module, with the values its message interpolates:
  \<^item> \<open>Product not found: ${productId}\<close>
  \<^item> \<open>Insufficient stock for product ${productId}. Available: ${product.stock}, requested: ${quantity}\<close>
  \<^item> \<open>Items out of stock: ${outOfStock.map(i => i.name).join(', ')}\<close>
  \<^item> \<open>Cart item not found for product: ${productId}\<close>
  \<^item> \<open>Cart is empty\<close>
\<close>

datatype error =
    ProductNotFound string
  | InsufficientStock string int int
  | ItemsOutOfStock "string list"
  | CartItemNotFound string
  | CartIsEmpty

datatype operation = Set | Increment | Decrement

record InventoryUpdate =
  iu_productId :: string
  iu_quantity :: int
  iu_operation :: operation

section \<open>The record store\<close>

text \<open>
  The record store is a remote service behind \<open>VlibeBaseDatabase\<close>, which only forwards
  HTTP requests.  The four operations below follow its contract: \<open>insert\<close> adds the record
  it is given, \<open>get\<close> returns the record with an identifier or nothing, \<open>update\<close> replaces
  the record with an identifier (every caller sends the whole record), \<open>delete\<close> removes it.
  Requests are taken to reach the service: a transport failure is not modelled.
\<close>

definition db_insert :: "'r list \<Rightarrow> 'r \<Rightarrow> 'r list" where
  "db_insert rows r = rows @ [r]"

definition db_get :: "('r \<Rightarrow> string) \<Rightarrow> 'r list \<Rightarrow> string \<Rightarrow> 'r option" where
  "db_get key rows i = find (\<lambda>r. key r = i) rows"

definition db_update :: "('r \<Rightarrow> string) \<Rightarrow> 'r list \<Rightarrow> string \<Rightarrow> 'r \<Rightarrow> 'r list" where
  "db_update key rows i r' = map (\<lambda>r. if key r = i then r' else r) rows"

definition db_delete :: "('r \<Rightarrow> string) \<Rightarrow> 'r list \<Rightarrow> string \<Rightarrow> 'r list" where
  "db_delete key rows i = filter (\<lambda>r. key r \<noteq> i) rows"

section \<open>Products and inventory\<close>

definition getProduct :: "db \<Rightarrow> string \<Rightarrow> Product option" where
  "getProduct d productId = db_get product_id (products d) productId"

definition apply_updates :: "ProductUpdates \<Rightarrow> Product \<Rightarrow> Product" where
  "apply_updates u p =
     p\<lparr>product_name := (case upd_name u of None \<Rightarrow> product_name p | Some v \<Rightarrow> v),
       product_price := (case upd_price u of None \<Rightarrow> product_price p | Some v \<Rightarrow> v),
       product_stock := (case upd_stock u of None \<Rightarrow> product_stock p | Some v \<Rightarrow> v),
       product_isActive := (case upd_isActive u of None \<Rightarrow> product_isActive p | Some v \<Rightarrow> v)\<rparr>"

definition no_updates :: ProductUpdates where
  "no_updates = \<lparr>upd_name = None, upd_price = None, upd_stock = None, upd_isActive = None\<rparr>"

definition updateProduct :: "env \<Rightarrow> db \<Rightarrow> string \<Rightarrow> ProductUpdates \<Rightarrow> (error + Product) \<times> db" where
  "updateProduct e d productId updates =
     (case getProduct d productId of
        None \<Rightarrow> (Inl (ProductNotFound productId), d)
      | Some existing \<Rightarrow>
          let updated = (apply_updates updates existing)
                          \<lparr>product_id := productId, product_updated_at := env_now e\<rparr>
          in (Inr updated, d\<lparr>products := db_update product_id (products d) productId updated\<rparr>))"

definition deleteProduct :: "env \<Rightarrow> db \<Rightarrow> string \<Rightarrow> (error + unit) \<times> db" where
  "deleteProduct e d productId =
     (case updateProduct e d productId (no_updates\<lparr>upd_isActive := Some False\<rparr>) of
        (Inl err, d') \<Rightarrow> (Inl err, d')
      | (Inr _, d') \<Rightarrow> (Inr (), d'))"

definition updateInventory ::
  "env \<Rightarrow> db \<Rightarrow> string \<Rightarrow> int \<Rightarrow> operation \<Rightarrow> (error + Product) \<times> db" where
  "updateInventory e d productId quantity op =
     (case getProduct d productId of
        None \<Rightarrow> (Inl (ProductNotFound productId), d)
      | Some product \<Rightarrow>
          (case op of
             Set \<Rightarrow> updateProduct e d productId (no_updates\<lparr>upd_stock := Some quantity\<rparr>)
           | Increment \<Rightarrow>
               updateProduct e d productId
                 (no_updates\<lparr>upd_stock := Some (fl_int (product_stock product + quantity))\<rparr>)
           | Decrement \<Rightarrow>
               let newStock = fl_int (product_stock product - quantity) in
               if newStock < 0
               then (Inl (InsufficientStock productId (product_stock product) quantity), d)
               else updateProduct e d productId (no_updates\<lparr>upd_stock := Some newStock\<rparr>)))"

text \<open>The \<open>for\<close> loop of \<open>bulkUpdateInventory\<close>: a throw leaves the loop with the store as it is.\<close>

fun bulk_loop ::
  "env \<Rightarrow> db \<Rightarrow> Product list \<Rightarrow> InventoryUpdate list \<Rightarrow> (error + Product list) \<times> db" where
  "bulk_loop e d results [] = (Inr results, d)"
| "bulk_loop e d results (update # updates) =
     (case updateInventory e d (iu_productId update) (iu_quantity update) (iu_operation update) of
        (Inl err, d') \<Rightarrow> (Inl err, d')
      | (Inr product, d') \<Rightarrow> bulk_loop e d' (results @ [product]) updates)"

definition bulkUpdateInventory ::
  "env \<Rightarrow> db \<Rightarrow> InventoryUpdate list \<Rightarrow> (error + Product list) \<times> db" where
  "bulkUpdateInventory e d updates = bulk_loop e d [] updates"

section \<open>Order totals\<close>

text \<open>The \<open>for\<close> loop of \<open>calculateOrderTotal\<close>, with its two accumulators.\<close>

fun calc_loop ::
  "db \<Rightarrow> CalculatedItem list \<Rightarrow> int \<Rightarrow> CartItem list \<Rightarrow> error + CalculatedItem list \<times> int" where
  "calc_loop d calculatedItems subtotal [] = Inr (calculatedItems, subtotal)"
| "calc_loop d calculatedItems subtotal (item # items) =
     (case getProduct d (ci_productId item) of
        None \<Rightarrow> Inl (ProductNotFound (ci_productId item))
      | Some product \<Rightarrow>
          let lineTotal = fl_int (product_price product * ci_quantity item);
              inStock = (product_stock product \<ge> ci_quantity item)
          in calc_loop d
               (calculatedItems @
                  [\<lparr>cl_productId = ci_productId item, cl_name = product_name product,
                    cl_price = product_price product, cl_quantity = ci_quantity item,
                    cl_lineTotal = lineTotal, cl_inStock = inStock\<rparr>])
               (fl_int (subtotal + lineTotal)) items)"

text \<open>
  What \<open>calculateOrderTotal\<close> does after the loop, on the items and the subtotal the loop
  has accumulated; a throw inside the loop passes through.
\<close>

fun after_loop :: "error + CalculatedItem list \<times> int \<Rightarrow> error + OrderCalculation" where
  "after_loop (Inl err) = Inl err"
| "after_loop (Inr (calculatedItems, subtotal)) =
     (let allInStock = list_all cl_inStock calculatedItems in
      if \<not> allInStock
      then let outOfStock = filter (\<lambda>item. \<not> cl_inStock item) calculatedItems
           in Inl (ItemsOutOfStock (map cl_name outOfStock))
      else
        let tax = Math_round (times_0_08 subtotal);
            shipping = (if subtotal > 5000 then 0 else 500);
            total = fl_int (fl_int (subtotal + tax) + shipping)
        in Inr \<lparr>calc_subtotal = subtotal, calc_tax = tax, calc_shipping = shipping,
                 calc_total = total, calc_items = calculatedItems\<rparr>)"

definition calculateOrderTotal :: "db \<Rightarrow> CartItem list \<Rightarrow> error + OrderCalculation" where
  "calculateOrderTotal d items = after_loop (calc_loop d [] 0 items)"

section \<open>Orders\<close>

text \<open>
  The loop of \<open>createOrder\<close> that inserts one \<open>order_items\<close> row per line; \<open>n\<close> counts the
  identifiers drawn so far.
\<close>

fun insert_order_items :: "env \<Rightarrow> string \<Rightarrow> nat \<Rightarrow> db \<Rightarrow> OrderItem list \<Rightarrow> db" where
  "insert_order_items e orderId n d [] = d"
| "insert_order_items e orderId n d (item # items) =
     insert_order_items e orderId (Suc n)
       (d\<lparr>order_items_rows := db_insert (order_items_rows d)
            \<lparr>oir_id = env_uuid e n, oir_orderId = orderId,
             oir_productId = oi_productId item, oir_name = oi_name item,
             oir_quantity = oi_quantity item, oir_price = oi_price item,
             oir_lineTotal = fl_int (oi_price item * oi_quantity item),
             oir_created_at = env_now e\<rparr>\<rparr>)
       items"

definition createOrder :: "env \<Rightarrow> db \<Rightarrow> CreateOrderInput \<Rightarrow> (error + Order) \<times> db" where
  "createOrder e d input =
     (let now = env_now e in
      case calculateOrderTotal d
             (map (\<lambda>item. \<lparr>ci_productId = ci_productId item, ci_quantity = ci_quantity item\<rparr>)
                  (in_items input)) of
        Inl err \<Rightarrow> (Inl err, d)
      | Inr calculation \<Rightarrow>
          let orderItems =
                map (\<lambda>item. \<lparr>oi_productId = cl_productId item, oi_name = cl_name item,
                              oi_quantity = cl_quantity item, oi_price = cl_price item\<rparr>)
                    (calc_items calculation);
              order =
                \<lparr>order_id = env_uuid e 0, order_userId = in_userId input,
                 order_status = pending, order_items = orderItems,
                 order_subtotal = calc_subtotal calculation, order_tax = calc_tax calculation,
                 order_shipping = calc_shipping calculation,
                 order_total = calc_total calculation,
                 order_shippingAddress = in_shippingAddress input,
                 order_billingAddress = in_billingAddress input,
                 order_paymentMethodId = in_paymentMethodId input,
                 order_notes = in_notes input,
                 order_created_at = now, order_updated_at = now\<rparr>;
              d1 = d\<lparr>orders := db_insert (orders d) order\<rparr>;
              d2 = insert_order_items e (order_id order) 1 d1 orderItems
          in (case bulkUpdateInventory e d2
                     (map (\<lambda>item. \<lparr>iu_productId = ci_productId item,
                                    iu_quantity = ci_quantity item,
                                    iu_operation = Decrement\<rparr>)
                          (in_items input)) of
                (Inl err, d3) \<Rightarrow> (Inl err, d3)
              | (Inr _, d3) \<Rightarrow> (Inr order, d3)))"

section \<open>Cart\<close>

definition getCart :: "db \<Rightarrow> string \<Rightarrow> CartItem list" where
  "getCart d userId =
     map (\<lambda>item. \<lparr>ci_productId = cart_productId item, ci_quantity = cart_quantity item\<rparr>)
         (filter (\<lambda>r. cart_userId r = userId) (carts d))"

definition addToCart :: "env \<Rightarrow> db \<Rightarrow> string \<Rightarrow> CartItem \<Rightarrow> CartItem list \<times> db" where
  "addToCart e d userId item =
     (let existingCart =
            filter (\<lambda>r. cart_userId r = userId \<and> cart_productId r = ci_productId item) (carts d);
          d' = (case existingCart of
                  existing # _ \<Rightarrow>
                    d\<lparr>carts := db_update cart_id (carts d) (cart_id existing)
                         (existing\<lparr>cart_quantity :=
                                     fl_int (cart_quantity existing + ci_quantity item),
                                   cart_updated_at := env_now e\<rparr>)\<rparr>
                | [] \<Rightarrow>
                    d\<lparr>carts := db_insert (carts d)
                         \<lparr>cart_id = env_uuid e 0, cart_userId = userId,
                          cart_productId = ci_productId item, cart_quantity = ci_quantity item,
                          cart_created_at = env_now e, cart_updated_at = env_now e\<rparr>\<rparr>)
      in (getCart d' userId, d'))"

definition updateCartItem ::
  "env \<Rightarrow> db \<Rightarrow> string \<Rightarrow> string \<Rightarrow> int \<Rightarrow> (error + CartItem list) \<times> db" where
  "updateCartItem e d userId productId quantity =
     (let items = filter (\<lambda>r. cart_userId r = userId \<and> cart_productId r = productId) (carts d)
      in case items of
           [] \<Rightarrow> (Inl (CartItemNotFound productId), d)
         | item # _ \<Rightarrow>
             let d' = (if quantity = 0
                       then d\<lparr>carts := db_delete cart_id (carts d) (cart_id item)\<rparr>
                       else d\<lparr>carts := db_update cart_id (carts d) (cart_id item)
                                (item\<lparr>cart_quantity := quantity,
                                      cart_updated_at := env_now e\<rparr>)\<rparr>)
             in (Inr (getCart d' userId), d'))"

text \<open>\<open>clearCart\<close> queries the user's rows once, then deletes them one by one.\<close>

definition clearCart :: "db \<Rightarrow> string \<Rightarrow> db" where
  "clearCart d userId =
     (let items = filter (\<lambda>r. cart_userId r = userId) (carts d)
      in fold (\<lambda>item d'. d'\<lparr>carts := db_delete cart_id (carts d') (cart_id item)\<rparr>) items d)"

definition checkout ::
  "env \<Rightarrow> db \<Rightarrow> string \<Rightarrow> Address \<Rightarrow> string option \<Rightarrow> (error + Order) \<times> db" where
  "checkout e d userId shippingAddress paymentMethodId =
     (let cart = getCart d userId in
      if length cart = 0 then (Inl CartIsEmpty, d)
      else
        case createOrder e d
               \<lparr>in_userId = userId,
                in_items = map (\<lambda>item. \<lparr>ci_productId = ci_productId item,
                                         ci_quantity = ci_quantity item\<rparr>) cart,
                in_shippingAddress = shippingAddress, in_billingAddress = None,
                in_paymentMethodId = paymentMethodId, in_notes = None\<rparr> of
          (Inl err, d') \<Rightarrow> (Inl err, d')
        | (Inr order, d') \<Rightarrow> (Inr order, clearCart d' userId))"

section \<open>Analytics\<close>

text \<open>
  A \<open>Date\<close> is its time value: milliseconds since 1970-01-01T00:00:00Z.  The methods the
  module calls on it are those of the language standard, read in a host whose local time
  zone is UTC.  Day numbers are converted to and from calendar dates of the proleptic
  Gregorian calendar; months count from 0 as in JavaScript.  The sums and quotients of the
  statistics are exact here.
\<close>

definition msPerDay :: int where
  "msPerDay = 86400000"

definition DayNumber :: "int \<Rightarrow> int" where
  "DayNumber t = t div msPerDay"

definition TimeWithinDay :: "int \<Rightarrow> int" where
  "TimeWithinDay t = t mod msPerDay"

definition WeekDay :: "int \<Rightarrow> int" where
  "WeekDay t = (DayNumber t + 4) mod 7"

text \<open>Year, month (0 to 11) and day of the month (1 to 31) of a day number.\<close>

definition civil_from_days :: "int \<Rightarrow> int \<times> int \<times> int" where
  "civil_from_days z0 =
     (let z = z0 + 719468;
          era = z div 146097;
          doe = z - era * 146097;
          yoe = (doe - doe div 1460 + doe div 36524 - doe div 146096) div 365;
          y = yoe + era * 400;
          doy = doe - (365 * yoe + yoe div 4 - yoe div 100);
          mp = (5 * doy + 2) div 153;
          dd = doy - (153 * mp + 2) div 5 + 1;
          m = (if mp < 10 then mp + 3 else mp - 9)
      in (if m \<le> 2 then y + 1 else y, m - 1, dd))"

text \<open>Day number of the first day of month \<open>m\<close> (0 to 11) of year \<open>y\<close>.\<close>

definition days_from_civil :: "int \<Rightarrow> int \<Rightarrow> int" where
  "days_from_civil y0 m0 =
     (let m = m0 + 1;
          y = (if m \<le> 2 then y0 - 1 else y0);
          era = y div 400;
          yoe = y - era * 400;
          doy = (153 * (if m > 2 then m - 3 else m + 9) + 2) div 5;
          doe = yoe * 365 + yoe div 4 - yoe div 100 + doy
      in era * 146097 + doe - 719468)"

definition YearFromTime :: "int \<Rightarrow> int" where
  "YearFromTime t = fst (civil_from_days (DayNumber t))"

definition MonthFromTime :: "int \<Rightarrow> int" where
  "MonthFromTime t = fst (snd (civil_from_days (DayNumber t)))"

definition DateFromTime :: "int \<Rightarrow> int" where
  "DateFromTime t = snd (snd (civil_from_days (DayNumber t)))"

definition MakeDay :: "int \<Rightarrow> int \<Rightarrow> int \<Rightarrow> int" where
  "MakeDay year month date =
     days_from_civil (year + month div 12) (month mod 12) + date - 1"

definition MakeDate :: "int \<Rightarrow> int \<Rightarrow> int" where
  "MakeDate dayNumber time = dayNumber * msPerDay + time"

definition getDate :: "int \<Rightarrow> int" where
  "getDate t = DateFromTime t"

definition getDay :: "int \<Rightarrow> int" where
  "getDay t = WeekDay t"

definition setDate :: "int \<Rightarrow> int \<Rightarrow> int" where
  "setDate t date = MakeDate (MakeDay (YearFromTime t) (MonthFromTime t) date) (TimeWithinDay t)"

definition setMonth :: "int \<Rightarrow> int \<Rightarrow> int \<Rightarrow> int" where
  "setMonth t month date = MakeDate (MakeDay (YearFromTime t) month date) (TimeWithinDay t)"

text \<open>\<open>setHours(0, 0, 0, 0)\<close>.\<close>

definition setHours0 :: "int \<Rightarrow> int" where
  "setHours0 t = MakeDate (DayNumber t) 0"

datatype period = Day | Week | Month | Year

definition getPeriodStart :: "int \<Rightarrow> period \<Rightarrow> int" where
  "getPeriodStart date p =
     (let d = date in
      case p of
        Day \<Rightarrow> setHours0 d
      | Week \<Rightarrow> setHours0 (setDate d (getDate d - getDay d))
      | Month \<Rightarrow> setHours0 (setDate d 1)
      | Year \<Rightarrow> setHours0 (setMonth d 0 1))"

record RevenueStats =
  totalRevenue :: int
  totalOrders :: nat
  averageOrderValue :: rat
  period_start :: int
  period_end :: int
  trend_revenue :: rat
  trend_orders :: rat

definition getRevenueStats :: "env \<Rightarrow> db \<Rightarrow> period \<Rightarrow> RevenueStats" where
  "getRevenueStats e d p =
     (let now = env_now e;
          periodStart = getPeriodStart now p;
          previousPeriodStart = getPeriodStart periodStart p;
          currentOrders = filter (\<lambda>ord. order_created_at ord \<ge> periodStart) (orders d);
          previousOrders =
            filter (\<lambda>ord. order_created_at ord \<ge> previousPeriodStart \<and>
                          order_created_at ord < periodStart) (orders d);
          totalRevenue = foldl (\<lambda>sum ord. sum + order_total ord) 0 currentOrders;
          previousRevenue = foldl (\<lambda>sum ord. sum + order_total ord) 0 previousOrders;
          totalOrders = length currentOrders;
          previousOrderCount = length previousOrders;
          averageOrderValue =
            (if totalOrders > 0 then of_int totalRevenue / of_nat totalOrders else 0);
          revenueTrend =
            (if previousRevenue > 0
             then (of_int (totalRevenue - previousRevenue) / of_int previousRevenue) * 100
             else 0);
          ordersTrend =
            (if previousOrderCount > 0
             then ((of_nat totalOrders - of_nat previousOrderCount) / of_nat previousOrderCount)
                    * 100
             else 0)
      in \<lparr>totalRevenue = totalRevenue, totalOrders = totalOrders,
          averageOrderValue = averageOrderValue,
          period_start = periodStart, period_end = now,
          trend_revenue = of_int (Math_round (revenueTrend * 100)) / 100,
          trend_orders = of_int (Math_round (ordersTrend * 100)) / 100\<rparr>)"

section \<open>Notions used to state the properties\<close>

text \<open>A cart line \<open>{productId, quantity}\<close>.\<close>

definition line :: "string \<Rightarrow> int \<Rightarrow> CartItem" where
  "line productId quantity = \<lparr>ci_productId = productId, ci_quantity = quantity\<rparr>"

text \<open>The inventory updates \<open>createOrder\<close> passes to \<open>bulkUpdateInventory\<close>.\<close>

definition decrements :: "CartItem list \<Rightarrow> InventoryUpdate list" where
  "decrements items =
     map (\<lambda>item. \<lparr>iu_productId = ci_productId item, iu_quantity = ci_quantity item,
                    iu_operation = Decrement\<rparr>) items"

text \<open>The \<open>order_items\<close> rows that the insertion loop of \<open>createOrder\<close> adds.\<close>

fun item_rows :: "env \<Rightarrow> string \<Rightarrow> nat \<Rightarrow> OrderItem list \<Rightarrow> OrderItemRow list" where
  "item_rows e orderId n [] = []"
| "item_rows e orderId n (item # items) =
     \<lparr>oir_id = env_uuid e n, oir_orderId = orderId,
      oir_productId = oi_productId item, oir_name = oi_name item,
      oir_quantity = oi_quantity item, oir_price = oi_price item,
      oir_lineTotal = fl_int (oi_price item * oi_quantity item),
      oir_created_at = env_now e\<rparr> # item_rows e orderId (Suc n) items"

text \<open>The order record \<open>createOrder\<close> builds from its input and the calculation.\<close>

definition new_order :: "env \<Rightarrow> CreateOrderInput \<Rightarrow> OrderCalculation \<Rightarrow> Order" where
  "new_order e input calculation =
     \<lparr>order_id = env_uuid e 0, order_userId = in_userId input,
      order_status = pending,
      order_items =
        map (\<lambda>item. \<lparr>oi_productId = cl_productId item, oi_name = cl_name item,
                      oi_quantity = cl_quantity item, oi_price = cl_price item\<rparr>)
            (calc_items calculation),
      order_subtotal = calc_subtotal calculation, order_tax = calc_tax calculation,
      order_shipping = calc_shipping calculation, order_total = calc_total calculation,
      order_shippingAddress = in_shippingAddress input,
      order_billingAddress = in_billingAddress input,
      order_paymentMethodId = in_paymentMethodId input,
      order_notes = in_notes input,
      order_created_at = env_now e, order_updated_at = env_now e\<rparr>"

definition new_rows :: "env \<Rightarrow> CreateOrderInput \<Rightarrow> OrderCalculation \<Rightarrow> OrderItemRow list" where
  "new_rows e input calculation =
     item_rows e (order_id (new_order e input calculation)) 1
       (order_items (new_order e input calculation))"

text \<open>A line is short when its product exists and has less stock than the line asks for.\<close>

definition line_short :: "db \<Rightarrow> CartItem \<Rightarrow> bool" where
  "line_short d item =
     (case getProduct d (ci_productId item) of
        None \<Rightarrow> False
      | Some product \<Rightarrow> product_stock product < ci_quantity item)"

definition line_name :: "db \<Rightarrow> CartItem \<Rightarrow> string" where
  "line_name d item =
     (case getProduct d (ci_productId item) of
        None \<Rightarrow> []
      | Some product \<Rightarrow> product_name product)"

definition all_products_exist :: "db \<Rightarrow> CartItem list \<Rightarrow> bool" where
  "all_products_exist d items = list_all (\<lambda>item. getProduct d (ci_productId item) \<noteq> None) items"

text \<open>The rows of the cart of a user for one product, and the store with every active flag set.\<close>

definition cart_rows_of :: "db \<Rightarrow> string \<Rightarrow> string \<Rightarrow> CartRow list" where
  "cart_rows_of d userId productId =
     filter (\<lambda>r. cart_userId r = userId \<and> cart_productId r = productId) (carts d)"

definition activate :: "Product \<Rightarrow> Product" where
  "activate p = p\<lparr>product_isActive := True\<rparr>"

definition all_active :: "db \<Rightarrow> db" where
  "all_active d = d\<lparr>products := map activate (products d)\<rparr>"

section \<open>Example data\<close>

definition example_env :: env where
  "example_env = \<lparr>env_now = 1710504000000, env_uuid = (\<lambda>n. replicate (Suc n) CHR ''u'')\<rparr>"

definition example_address :: Address where
  "example_address =
     \<lparr>line1 = ''1 Main St'', line2 = None, city = ''Springfield'', state = ''IL'',
      postalCode = ''62701'', country = ''US''\<rparr>"

definition widget :: Product where
  "widget = \<lparr>product_id = ''p1'', product_name = ''Widget'', product_price = 1000,
             product_stock = 5, product_isActive = True, product_updated_at = 0\<rparr>"

definition gadget :: Product where
  "gadget = \<lparr>product_id = ''p2'', product_name = ''Gadget'', product_price = 250,
             product_stock = 1, product_isActive = False, product_updated_at = 0\<rparr>"

definition penny :: Product where
  "penny = \<lparr>product_id = ''p3'', product_name = ''Penny'', product_price = 1,
            product_stock = 10000, product_isActive = True, product_updated_at = 0\<rparr>"

definition example_db :: db where
  "example_db =
     \<lparr>products = [widget, gadget, penny], orders = [], order_items_rows = [],
      carts = [\<lparr>cart_id = ''c1'', cart_userId = ''alice'', cart_productId = ''p1'',
                cart_quantity = 2, cart_created_at = 0, cart_updated_at = 0\<rparr>,
               \<lparr>cart_id = ''c2'', cart_userId = ''bob'', cart_productId = ''p2'',
                cart_quantity = 3, cart_created_at = 0, cart_updated_at = 0\<rparr>]\<rparr>"

definition example_input :: "CartItem list \<Rightarrow> CreateOrderInput" where
  "example_input items =
     \<lparr>in_userId = ''alice'', in_items = items, in_shippingAddress = example_address,
      in_billingAddress = None, in_paymentMethodId = None, in_notes = None\<rparr>"

definition example_calc :: OrderCalculation where
  "example_calc =
     \<lparr>calc_subtotal = 1000, calc_tax = 80, calc_shipping = 500, calc_total = 1580,
      calc_items = [\<lparr>cl_productId = ''p1'', cl_name = ''Widget'', cl_price = 1000,
                     cl_quantity = 1, cl_lineTotal = 1000, cl_inStock = True\<rparr>]\<rparr>"

text \<open>
  Products whose prices and stocks lie near \<open>2 ^ 53 = 9007199254740992\<close>, where a double
  no longer holds every integer.
\<close>

definition bullion :: Product where
  "bullion = \<lparr>product_id = ''p4'', product_name = ''Bullion'',
              product_price = 9007199254740990, product_stock = 9007199254740994,
              product_isActive = True, product_updated_at = 0\<rparr>"

definition ingot :: Product where
  "ingot = \<lparr>product_id = ''p5'', product_name = ''Ingot'',
            product_price = 3518437208882206, product_stock = 9007199254740992,
            product_isActive = True, product_updated_at = 0\<rparr>"

definition large_db :: db where
  "large_db = \<lparr>products = [bullion, ingot], orders = [], order_items_rows = [], carts = []\<rparr>"

text \<open>
  Three orders for the analytics: one of 20 February 2024 and two of 10 and 12 March 2024,
  read on 15 March 2024 at noon (the time of \<open>example_env\<close>).
\<close>

definition example_order :: "string \<Rightarrow> int \<Rightarrow> int \<Rightarrow> int \<Rightarrow> Order" where
  "example_order ident created subtotal tax =
     \<lparr>order_id = ident, order_userId = ''alice'', order_status = pending,
      order_items = [\<lparr>oi_productId = ''p3'', oi_name = ''Penny'', oi_quantity = subtotal,
                       oi_price = 1\<rparr>],
      order_subtotal = subtotal, order_tax = tax, order_shipping = 500,
      order_total = subtotal + tax + 500,
      order_shippingAddress = example_address, order_billingAddress = None,
      order_paymentMethodId = None, order_notes = None,
      order_created_at = created, order_updated_at = created\<rparr>"

definition analytics_db :: db where
  "analytics_db =
     \<lparr>products = [penny],
      orders = [example_order ''o1'' 1708421400000 463 37,
                example_order ''o2'' 1710057600000 1389 111,
                example_order ''o3'' 1710266400000 463 37],
      order_items_rows = [], carts = []\<rparr>"

section \<open>Rounding to a double\<close>

text \<open>Integers of magnitude up to \<open>2 ^ 53\<close> are not rounded.\<close>

lemma fl_int_small: "\<bar>n\<bar> < 2 ^ 53 \<Longrightarrow> fl_int n = n"
proof -
  assume a: "\<bar>n\<bar> < 2 ^ 53"
  then have "bitlen \<bar>n\<bar> \<le> 53"
    by (simp add: bitlen_le_iff_power)
  then have k: "nat (bitlen \<bar>n\<bar> - 53) = 0" by simp
  show ?thesis
    unfolding fl_int_def Let_def k by (simp add: mult_sgn_abs)
qed

lemma fl_int_exact: "\<bar>n\<bar> \<le> 2 ^ 53 \<Longrightarrow> fl_int n = n"
proof -
  assume a: "\<bar>n\<bar> \<le> 2 ^ 53"
  have p: "fl_int 9007199254740992 = 9007199254740992" by code_simp
  have m: "fl_int (- 9007199254740992) = - 9007199254740992" by code_simp
  from a have "\<bar>n\<bar> < 2 ^ 53 \<or> n = 9007199254740992 \<or> n = - 9007199254740992"
    by simp arith
  then show ?thesis
    using fl_int_small [of n] p m by auto
qed

text \<open>The rounding error is at most half the weight of the last bit kept.\<close>

lemma fl_int_error: "2 * \<bar>fl_int n - n\<bar> \<le> 2 ^ nat (bitlen \<bar>n\<bar> - 53)"
proof -
  define a where "a = \<bar>n\<bar>"
  define m :: int where "m = 2 ^ nat (bitlen a - 53)"
  define q where "q = a div m"
  define r where "r = a mod m"
  define q' where "q' = (if 2 * r > m \<or> (2 * r = m \<and> odd q) then q + 1 else q)"
  have mpos: "0 < m" by (simp add: m_def)
  have a: "a = q * m + r" by (simp add: q_def r_def)
  have r: "0 \<le> r" "r < m" using mpos by (simp_all add: r_def)
  have f: "fl_int n = sgn n * (q' * m)"
    by (simp add: fl_int_def Let_def a_def m_def q_def r_def q'_def)
  have n: "n = sgn n * a" by (simp add: a_def mult_sgn_abs)
  have "fl_int n - n = sgn n * (q' * m - a)"
    using f n by (metis right_diff_distrib)
  then have "\<bar>fl_int n - n\<bar> \<le> \<bar>q' * m - a\<bar>"
    by (simp add: abs_mult abs_sgn_eq)
  moreover have "2 * \<bar>q' * m - a\<bar> \<le> m"
    using a r by (auto simp: q'_def algebra_simps)
  ultimately show ?thesis
    unfolding m_def a_def by linarith
qed

lemma fl_int_error_below:
  assumes "\<bar>n\<bar> < 2 ^ (53 + j)"
  shows "2 * \<bar>fl_int n - n\<bar> \<le> 2 ^ j"
proof -
  from assms have "bitlen \<bar>n\<bar> \<le> 53 + int j"
    by (simp add: bitlen_le_iff_power nat_add_distrib)
  then have "nat (bitlen \<bar>n\<bar> - 53) \<le> j" by simp
  then have "(2::int) ^ nat (bitlen \<bar>n\<bar> - 53) \<le> 2 ^ j"
    by (simp add: power_increasing)
  with fl_int_error [of n] show ?thesis by linarith
qed

text \<open>Rounding keeps the sign.\<close>

lemma fl_int_sign_pos: "0 < n \<Longrightarrow> 0 < fl_int n"
proof -
  assume p: "0 < n"
  define k where "k = nat (bitlen \<bar>n\<bar> - 53)"
  have "(2::int) ^ nat (bitlen n - 1) \<le> n" using bitlen_bounds [OF p] by simp
  moreover have "k \<le> nat (bitlen n - 1)" using p by (simp add: k_def)
  then have "(2::int) ^ k \<le> 2 ^ nat (bitlen n - 1)" by (simp add: power_increasing)
  ultimately have "(2::int) ^ k \<le> n" by linarith
  moreover have "2 * \<bar>fl_int n - n\<bar> \<le> 2 ^ k" using fl_int_error [of n] by (simp add: k_def)
  moreover have "(0::int) < 2 ^ k" by simp
  moreover define P :: int where "P = 2 ^ k"
  moreover define x where "x = \<bar>fl_int n - n\<bar>"
  ultimately have "P \<le> n" "2 * x \<le> P" "0 < P" by simp_all
  moreover have "n - fl_int n \<le> x" by (simp add: x_def)
  ultimately show ?thesis by linarith
qed

lemma fl_int_minus: "fl_int (- n) = - fl_int n"
  by (simp add: fl_int_def Let_def)

lemma fl_int_neg_iff: "fl_int n < 0 \<longleftrightarrow> n < 0"
proof (cases "n < 0")
  case True
  then have "0 < fl_int (- n)" by (intro fl_int_sign_pos) simp
  with True show ?thesis by (simp add: fl_int_minus)
next
  case False
  then have "n = 0 \<or> 0 < n" by auto
  then have "0 \<le> fl_int n"
  proof
    assume "n = 0" then show ?thesis by (simp add: fl_int_def)
  next
    assume "0 < n" then show ?thesis using fl_int_sign_pos [of n] by simp
  qed
  with False show ?thesis by simp
qed

section \<open>Auxiliary facts\<close>

lemma calculateOrderTotal_unfold:
  "calculateOrderTotal d items =
     (case calc_loop d [] 0 items of
        Inl err \<Rightarrow> Inl err
      | Inr (calculatedItems, subtotal) \<Rightarrow>
          let allInStock = list_all cl_inStock calculatedItems in
          if \<not> allInStock
          then let outOfStock = filter (\<lambda>item. \<not> cl_inStock item) calculatedItems
               in Inl (ItemsOutOfStock (map cl_name outOfStock))
          else
            let tax = Math_round (times_0_08 subtotal);
                shipping = (if subtotal > 5000 then 0 else 500);
                total = fl_int (fl_int (subtotal + tax) + shipping)
            in Inr \<lparr>calc_subtotal = subtotal, calc_tax = tax, calc_shipping = shipping,
                     calc_total = total, calc_items = calculatedItems\<rparr>)"
  by (simp add: calculateOrderTotal_def split: sum.splits prod.splits)

lemma db_get_update_same:
  "db_get key rows i = Some r \<Longrightarrow> key r' = i \<Longrightarrow> db_get key (db_update key rows i r') i = Some r'"
  unfolding db_get_def db_update_def
  by (induction rows) (auto split: if_splits)

lemma db_update_fresh: "i \<notin> key ` set rows \<Longrightarrow> db_update key rows i r' = rows"
  unfolding db_update_def by (induction rows) auto

lemma db_delete_fresh: "i \<notin> key ` set rows \<Longrightarrow> db_delete key rows i = rows"
  unfolding db_delete_def by (induction rows) auto

lemma cart_item_copy:
  "map (\<lambda>item. \<lparr>ci_productId = ci_productId item, ci_quantity = ci_quantity item\<rparr>) items = items"
  by (induction items) auto

lemma updateProduct_frame:
  "updateProduct e d productId u = (r, d') \<Longrightarrow>
     orders d' = orders d \<and> order_items_rows d' = order_items_rows d \<and> carts d' = carts d"
  by (auto simp: updateProduct_def Let_def split: option.splits)

lemma updateInventory_frame:
  "updateInventory e d productId q op = (r, d') \<Longrightarrow>
     orders d' = orders d \<and> order_items_rows d' = order_items_rows d \<and> carts d' = carts d"
  by (auto simp: updateInventory_def Let_def split: option.splits operation.splits if_splits
           dest: updateProduct_frame)

lemma updateInventory_failure_unchanged:
  "updateInventory e d productId q op = (Inl err, d') \<Longrightarrow> d' = d"
  by (auto simp: updateInventory_def updateProduct_def Let_def
           split: option.splits operation.splits if_splits)

lemma bulk_loop_frame:
  "bulk_loop e d results updates = (r, d') \<Longrightarrow>
     orders d' = orders d \<and> order_items_rows d' = order_items_rows d \<and> carts d' = carts d"
proof (induction updates arbitrary: d results)
  case Nil
  then show ?case by simp
next
  case (Cons u us)
  obtain r1 d1 where u1: "updateInventory e d (iu_productId u) (iu_quantity u) (iu_operation u) = (r1, d1)"
    by (cases "updateInventory e d (iu_productId u) (iu_quantity u) (iu_operation u)")
  have f1: "orders d1 = orders d \<and> order_items_rows d1 = order_items_rows d \<and> carts d1 = carts d"
    using updateInventory_frame [OF u1] .
  show ?case
  proof (cases r1)
    case (Inl err)
    with Cons.prems u1 have "d' = d1" by simp
    with f1 show ?thesis by simp
  next
    case (Inr p)
    with Cons.prems u1 have "bulk_loop e d1 (results @ [p]) us = (r, d')" by simp
    from Cons.IH [OF this] f1 show ?thesis by simp
  qed
qed

lemma bulk_loop_append:
  "bulk_loop e d rs (us1 @ us2) =
     (case bulk_loop e d rs us1 of
        (Inl err, d1) \<Rightarrow> (Inl err, d1)
      | (Inr rs1, d1) \<Rightarrow> bulk_loop e d1 rs1 us2)"
  by (induction us1 arbitrary: d rs) (auto split: prod.splits sum.splits)

text \<open>Inventory updates read and write the products only.\<close>

lemma updateProduct_other_fields:
  "updateProduct e (d\<lparr>orders := os, order_items_rows := rows\<rparr>) productId u =
     (case updateProduct e d productId u of
        (r, d') \<Rightarrow> (r, d'\<lparr>orders := os, order_items_rows := rows\<rparr>))"
  by (simp add: updateProduct_def getProduct_def Let_def split: option.splits)

lemma updateInventory_other_fields:
  "updateInventory e (d\<lparr>orders := os, order_items_rows := rows\<rparr>) productId q op =
     (case updateInventory e d productId q op of
        (r, d') \<Rightarrow> (r, d'\<lparr>orders := os, order_items_rows := rows\<rparr>))"
  by (simp add: updateInventory_def updateProduct_other_fields Let_def getProduct_def
           split: option.splits operation.splits prod.splits)

lemma bulk_loop_other_fields:
  "bulk_loop e (d\<lparr>orders := os, order_items_rows := rows\<rparr>) rs us =
     (case bulk_loop e d rs us of
        (r, d') \<Rightarrow> (r, d'\<lparr>orders := os, order_items_rows := rows\<rparr>))"
proof (induction us arbitrary: d rs)
  case Nil
  show ?case by simp
next
  case (Cons u us)
  show ?case
    by (simp add: updateInventory_other_fields Cons.IH split: prod.splits sum.splits)
qed

lemma insert_order_items_eq:
  "insert_order_items e oid n d items =
     d\<lparr>order_items_rows := order_items_rows d @ item_rows e oid n items\<rparr>"
  by (induction items arbitrary: n d) (simp_all add: db_insert_def)

lemma createOrder_failed_calculation:
  "calculateOrderTotal d (in_items input) = Inl err \<Longrightarrow> createOrder e d input = (Inl err, d)"
  by (simp add: createOrder_def cart_item_copy)

lemma createOrder_eq:
  assumes "calculateOrderTotal d (in_items input) = Inr c"
    and "bulkUpdateInventory e d (decrements (in_items input)) = (rb, db)"
  shows "createOrder e d input =
           ((case rb of Inl err \<Rightarrow> Inl err | Inr _ \<Rightarrow> Inr (new_order e input c)),
            db\<lparr>orders := orders d @ [new_order e input c],
               order_items_rows := order_items_rows d @ new_rows e input c\<rparr>)"
proof -
  let ?ord = "new_order e input c"
  let ?d2 = "d\<lparr>orders := orders d @ [?ord],
               order_items_rows := order_items_rows d @ new_rows e input c\<rparr>"
  have d2: "insert_order_items e (order_id ?ord) 1 (d\<lparr>orders := db_insert (orders d) ?ord\<rparr>)
              (order_items ?ord) = ?d2"
    by (simp add: insert_order_items_eq new_rows_def db_insert_def)
  have b: "bulk_loop e ?d2 [] (decrements (in_items input)) =
             (rb, db\<lparr>orders := orders d @ [?ord],
                     order_items_rows := order_items_rows d @ new_rows e input c\<rparr>)"
    using assms(2) by (simp add: bulk_loop_other_fields bulkUpdateInventory_def)
  have "createOrder e d input =
          (case bulkUpdateInventory e
                  (insert_order_items e (order_id ?ord) 1 (d\<lparr>orders := db_insert (orders d) ?ord\<rparr>)
                     (order_items ?ord))
                  (decrements (in_items input)) of
             (Inl err, d3) \<Rightarrow> (Inl err, d3)
           | (Inr _, d3) \<Rightarrow> (Inr ?ord, d3))"
    unfolding createOrder_def new_order_def decrements_def
    using assms(1) by (simp add: cart_item_copy Let_def)
  then show ?thesis
    unfolding d2 bulkUpdateInventory_def b by (simp split: sum.splits)
qed

lemma calculateOrderTotal_rounded_total:
  "calculateOrderTotal d items = Inr c \<Longrightarrow>
     calc_total c = fl_int (fl_int (calc_subtotal c + calc_tax c) + calc_shipping c)"
  by (auto simp: calculateOrderTotal_unfold Let_def split: sum.splits if_splits)

lemma exact_total:
  assumes "\<bar>a + b\<bar> \<le> 2 ^ 53" and "\<bar>a + b + c\<bar> \<le> 2 ^ 53"
  shows "fl_int (fl_int (a + b) + c) = a + b + c"
  using assms by (simp add: fl_int_exact)

lemma calculateOrderTotal_total:
  assumes "calculateOrderTotal d items = Inr c"
    and "\<bar>calc_subtotal c + calc_tax c\<bar> \<le> 2 ^ 53"
    and "\<bar>calc_subtotal c + calc_tax c + calc_shipping c\<bar> \<le> 2 ^ 53"
  shows "calc_total c = calc_subtotal c + calc_tax c + calc_shipping c"
  using calculateOrderTotal_rounded_total [OF assms(1)] exact_total [OF assms(2,3)] by simp

lemma createOrder_orders:
  "createOrder e d input = (r, d') \<Longrightarrow>
     (\<exists>err. r = Inl err \<and> d' = d \<and> calculateOrderTotal d (in_items input) = Inl err) \<or>
     (\<exists>c. calculateOrderTotal d (in_items input) = Inr c \<and>
          orders d' = orders d @ [new_order e input c] \<and>
          order_items_rows d' = order_items_rows d @ new_rows e input c \<and>
          carts d' = carts d \<and>
          (r = Inr (new_order e input c) \<or> (\<exists>err. r = Inl err)))"
proof (cases "calculateOrderTotal d (in_items input)")
  case (Inl err)
  assume "createOrder e d input = (r, d')"
  with createOrder_failed_calculation [OF Inl, of e] Inl show ?thesis by simp
next
  case (Inr c)
  assume co: "createOrder e d input = (r, d')"
  obtain rb db where b: "bulkUpdateInventory e d (decrements (in_items input)) = (rb, db)"
    by (cases "bulkUpdateInventory e d (decrements (in_items input))")
  from b have "carts db = carts d"
    unfolding bulkUpdateInventory_def by (rule bulk_loop_frame [THEN conjunct2, THEN conjunct2])
  with createOrder_eq [OF Inr b, of ] co Inr show ?thesis
    by (cases rb) auto
qed

section \<open>Order totals and exact sums\<close>

text \<open>
  C1, as the code has it.  The total is the sum of doubles
  \<open>subtotal + tax + shipping\<close>, so it is the exact sum when \<open>subtotal + tax\<close> and
  \<open>subtotal + tax + shipping\<close> have magnitudes of at most \<open>2 ^ 53\<close>.  That holds of every
  calculation \<open>calculateOrderTotal\<close> returns.  \<open>createOrder\<close> either leaves the \<open>orders\<close>
  collection as it is or adds exactly one order, whose four amounts are those of the
  calculation; so are those of the order it returns, which is then among the persisted ones.
\<close>

theorem order_total_is_exact_sum:
  "(calculateOrderTotal d items = Inr c \<and>
    \<bar>calc_subtotal c + calc_tax c\<bar> \<le> 2 ^ 53 \<and>
    \<bar>calc_subtotal c + calc_tax c + calc_shipping c\<bar> \<le> 2 ^ 53 \<longrightarrow>
      calc_total c = calc_subtotal c + calc_tax c + calc_shipping c) \<and>
   (createOrder e d input = (r, d') \<longrightarrow>
      (orders d' = orders d \<or>
       (\<exists>ord. orders d' = orders d @ [ord] \<and>
          (\<bar>order_subtotal ord + order_tax ord\<bar> \<le> 2 ^ 53 \<and>
           \<bar>order_subtotal ord + order_tax ord + order_shipping ord\<bar> \<le> 2 ^ 53 \<longrightarrow>
             order_total ord = order_subtotal ord + order_tax ord + order_shipping ord))) \<and>
      (\<forall>ord. r = Inr ord \<longrightarrow>
          ord \<in> set (orders d') \<and>
          (\<bar>order_subtotal ord + order_tax ord\<bar> \<le> 2 ^ 53 \<and>
           \<bar>order_subtotal ord + order_tax ord + order_shipping ord\<bar> \<le> 2 ^ 53 \<longrightarrow>
             order_total ord = order_subtotal ord + order_tax ord + order_shipping ord)))"
proof (intro conjI impI)
  assume "calculateOrderTotal d items = Inr c \<and>
    \<bar>calc_subtotal c + calc_tax c\<bar> \<le> 2 ^ 53 \<and>
    \<bar>calc_subtotal c + calc_tax c + calc_shipping c\<bar> \<le> 2 ^ 53"
  then show "calc_total c = calc_subtotal c + calc_tax c + calc_shipping c"
    by (blast intro: calculateOrderTotal_total)
next
  assume co: "createOrder e d input = (r, d')"
  have t: "order_total (new_order e input c') =
             order_subtotal (new_order e input c') + order_tax (new_order e input c') +
             order_shipping (new_order e input c')"
    if "calculateOrderTotal d (in_items input) = Inr c'"
      and "\<bar>order_subtotal (new_order e input c') + order_tax (new_order e input c')\<bar> \<le> 2 ^ 53"
      and "\<bar>order_subtotal (new_order e input c') + order_tax (new_order e input c') +
            order_shipping (new_order e input c')\<bar> \<le> 2 ^ 53"
    for c'
    using calculateOrderTotal_total [OF that(1)] that(2,3) by (simp add: new_order_def)
  from createOrder_orders [OF co] t
  show "orders d' = orders d \<or>
       (\<exists>ord. orders d' = orders d @ [ord] \<and>
          (\<bar>order_subtotal ord + order_tax ord\<bar> \<le> 2 ^ 53 \<and>
           \<bar>order_subtotal ord + order_tax ord + order_shipping ord\<bar> \<le> 2 ^ 53 \<longrightarrow>
             order_total ord = order_subtotal ord + order_tax ord + order_shipping ord))"
    by blast
  from createOrder_orders [OF co] t
  show "\<forall>ord. r = Inr ord \<longrightarrow>
          ord \<in> set (orders d') \<and>
          (\<bar>order_subtotal ord + order_tax ord\<bar> \<le> 2 ^ 53 \<and>
           \<bar>order_subtotal ord + order_tax ord + order_shipping ord\<bar> \<le> 2 ^ 53 \<longrightarrow>
             order_total ord = order_subtotal ord + order_tax ord + order_shipping ord)"
    by auto
qed

theorem order_total_is_exact_sum_witness:
  "calculateOrderTotal example_db [line ''p1'' 1] = Inr example_calc \<and>
   \<bar>calc_subtotal example_calc + calc_tax example_calc\<bar> \<le> 2 ^ 53 \<and>
   \<bar>calc_subtotal example_calc + calc_tax example_calc + calc_shipping example_calc\<bar> \<le> 2 ^ 53 \<and>
   calc_total example_calc =
     calc_subtotal example_calc + calc_tax example_calc + calc_shipping example_calc \<and>
   fst (createOrder example_env example_db (example_input [line ''p1'' 1])) =
     Inr (new_order example_env (example_input [line ''p1'' 1]) example_calc) \<and>
   orders (snd (createOrder example_env example_db (example_input [line ''p1'' 1]))) =
     orders example_db @ [new_order example_env (example_input [line ''p1'' 1]) example_calc] \<and>
   order_total (new_order example_env (example_input [line ''p1'' 1]) example_calc) =
     order_subtotal (new_order example_env (example_input [line ''p1'' 1]) example_calc) +
     order_tax (new_order example_env (example_input [line ''p1'' 1]) example_calc) +
     order_shipping (new_order example_env (example_input [line ''p1'' 1]) example_calc) \<and>
   order_total (new_order example_env (example_input [line ''p1'' 1]) example_calc) = 1580"
proof -
  let ?input = "example_input [line ''p1'' 1]"
  let ?ord = "new_order example_env ?input example_calc"
  have h1: "calculateOrderTotal example_db [line ''p1'' 1] = Inr example_calc"
    by code_simp
  have h2: "fst (createOrder example_env example_db ?input) = Inr ?ord"
    by code_simp
  have h3: "orders (snd (createOrder example_env example_db ?input)) = orders example_db @ [?ord]"
    by code_simp
  have h4: "order_total ?ord = 1580"
    by code_simp
  have b: "\<bar>calc_subtotal example_calc + calc_tax example_calc\<bar> \<le> 2 ^ 53"
    "\<bar>calc_subtotal example_calc + calc_tax example_calc + calc_shipping example_calc\<bar> \<le> 2 ^ 53"
    by (simp_all add: example_calc_def)
  have b': "\<bar>order_subtotal ?ord + order_tax ?ord\<bar> \<le> 2 ^ 53"
    "\<bar>order_subtotal ?ord + order_tax ?ord + order_shipping ?ord\<bar> \<le> 2 ^ 53"
    by (simp_all add: new_order_def example_calc_def)
  from order_total_is_exact_sum
         [of example_db "[line ''p1'' 1]" example_calc example_env ?input
             "fst (createOrder example_env example_db ?input)"
             "snd (createOrder example_env example_db ?input)"] h1 h2 b b'
  have "calc_total example_calc =
          calc_subtotal example_calc + calc_tax example_calc + calc_shipping example_calc"
    and "order_total ?ord = order_subtotal ?ord + order_tax ?ord + order_shipping ?ord"
    by (blast intro: prod.collapse [symmetric])+
  with h1 h2 h3 h4 b show ?thesis by simp
qed

text \<open>
  Above \<open>2 ^ 53\<close> the sum is rounded: for one unit of a product priced 9007199254740990 the
  subtotal is 9007199254740990, the tax 720575940379279 and shipping 0, whose sum is
  9727775195120269, and the total computed and persisted is 9727775195120268.
\<close>

theorem order_total_rounded_counterexample:
  "map_sum id (\<lambda>c. (calc_subtotal c, calc_tax c, calc_shipping c, calc_total c))
     (calculateOrderTotal large_db [line ''p4'' 1]) =
     Inr (9007199254740990, 720575940379279, 0, 9727775195120268) \<and>
   (9007199254740990 + 720575940379279 + 0 :: int) = 9727775195120269 \<and>
   map (\<lambda>ord. (order_subtotal ord, order_tax ord, order_shipping ord, order_total ord))
     (orders (snd (createOrder example_env large_db (example_input [line ''p4'' 1])))) =
     [(9007199254740990, 720575940379279, 0, 9727775195120268)]"
proof -
  have a: "map_sum id (\<lambda>c. (calc_subtotal c, calc_tax c, calc_shipping c, calc_total c))
     (calculateOrderTotal large_db [line ''p4'' 1]) =
     Inr (9007199254740990, 720575940379279, 0, 9727775195120268)"
    by code_simp
  have b: "map (\<lambda>ord. (order_subtotal ord, order_tax ord, order_shipping ord, order_total ord))
     (orders (snd (createOrder example_env large_db (example_input [line ''p4'' 1])))) =
     [(9007199254740990, 720575940379279, 0, 9727775195120268)]"
    by code_simp
  from a b show ?thesis by simp
qed

section \<open>Decrementing stock\<close>

text \<open>
  C2, as the code has it.  For an existing product with stock \<open>s\<close>, \<open>updateInventory\<close> with
  \<open>decrement\<close> and quantity \<open>q\<close> fails exactly when \<open>s - q < 0\<close>: the error carries the
  product, \<open>s\<close> and \<open>q\<close>, and the store is unchanged.  Otherwise it succeeds, and the
  stored product has stock \<open>s - q\<close> when the magnitude of \<open>s - q\<close> is at most \<open>2 ^ 53\<close>.
\<close>

theorem updateInventory_decrement:
  assumes "getProduct d productId = Some p"
  shows "(product_stock p - q < 0 \<longrightarrow>
            updateInventory e d productId q Decrement =
              (Inl (InsufficientStock productId (product_stock p) q), d)) \<and>
         (\<not> product_stock p - q < 0 \<longrightarrow>
            (\<exists>p' d'. updateInventory e d productId q Decrement = (Inr p', d') \<and>
               getProduct d' productId = Some p' \<and>
               (\<bar>product_stock p - q\<bar> \<le> 2 ^ 53 \<longrightarrow>
                  product_stock p' = product_stock p - q)))"
  using assms
  by (auto simp: updateInventory_def updateProduct_def Let_def getProduct_def
                 apply_updates_def no_updates_def db_get_update_same
                 fl_int_neg_iff fl_int_exact)

theorem updateInventory_decrement_witness:
  "getProduct example_db ''p1'' = Some widget \<and>
   product_stock widget - 7 < 0 \<and>
   updateInventory example_env example_db ''p1'' 7 Decrement =
     (Inl (InsufficientStock ''p1'' 5 7), example_db) \<and>
   \<not> product_stock widget - 3 < 0 \<and> \<bar>product_stock widget - 3\<bar> \<le> 2 ^ 53 \<and>
   fst (updateInventory example_env example_db ''p1'' 3 Decrement) =
     Inr (widget\<lparr>product_stock := 2, product_updated_at := 1710504000000\<rparr>) \<and>
   getProduct (snd (updateInventory example_env example_db ''p1'' 3 Decrement)) ''p1'' =
     Some (widget\<lparr>product_stock := 2, product_updated_at := 1710504000000\<rparr>)"
proof -
  have g: "getProduct example_db ''p1'' = Some widget" by code_simp
  have s: "product_stock widget = 5" by code_simp
  have a: "updateInventory example_env example_db ''p1'' 7 Decrement =
             (Inl (InsufficientStock ''p1'' 5 7), example_db)"
    using updateInventory_decrement [OF g, of 7 example_env] s by simp
  have b: "fst (updateInventory example_env example_db ''p1'' 3 Decrement) =
             Inr (widget\<lparr>product_stock := 2, product_updated_at := 1710504000000\<rparr>)"
    by code_simp
  have c: "getProduct (snd (updateInventory example_env example_db ''p1'' 3 Decrement)) ''p1'' =
             Some (widget\<lparr>product_stock := 2, product_updated_at := 1710504000000\<rparr>)"
    by code_simp
  from updateInventory_decrement [OF g, of 3 example_env] s
  obtain p' d' where "updateInventory example_env example_db ''p1'' 3 Decrement = (Inr p', d')"
    and "product_stock p' = 2" and "getProduct d' ''p1'' = Some p'"
    by auto
  with g s a b c show ?thesis by simp
qed

text \<open>
  Above \<open>2 ^ 53\<close> the difference is rounded: from stock 9007199254740994, a decrement by 1
  stores 9007199254740992.
\<close>

theorem decrement_rounded_counterexample:
  "getProduct large_db ''p4'' = Some bullion \<and>
   product_stock bullion = 9007199254740994 \<and>
   (9007199254740994 - 1 :: int) = 9007199254740993 \<and>
   fst (updateInventory example_env large_db ''p4'' 1 Decrement) =
     Inr (bullion\<lparr>product_stock := 9007199254740992, product_updated_at := 1710504000000\<rparr>) \<and>
   getProduct (snd (updateInventory example_env large_db ''p4'' 1 Decrement)) ''p4'' =
     Some (bullion\<lparr>product_stock := 9007199254740992, product_updated_at := 1710504000000\<rparr>)"
proof -
  have a: "getProduct large_db ''p4'' = Some bullion" by code_simp
  have b: "product_stock bullion = 9007199254740994" by code_simp
  have c: "fst (updateInventory example_env large_db ''p4'' 1 Decrement) =
     Inr (bullion\<lparr>product_stock := 9007199254740992, product_updated_at := 1710504000000\<rparr>)"
    by code_simp
  have d: "getProduct (snd (updateInventory example_env large_db ''p4'' 1 Decrement)) ''p4'' =
     Some (bullion\<lparr>product_stock := 9007199254740992, product_updated_at := 1710504000000\<rparr>)"
    by code_simp
  from a b c d show ?thesis by simp
qed

section \<open>Incrementing and setting stock\<close>

text \<open>
  An increment by a negative quantity is not refused: from stock 5, incrementing by \<open>-10\<close>
  succeeds and stores stock \<open>-5\<close>.
\<close>

theorem increment_below_zero_counterexample:
  "getProduct example_db ''p1'' = Some widget \<and> 0 \<le> product_stock widget \<and>
   product_stock widget + (- 10) < 0 \<and>
   fst (updateInventory example_env example_db ''p1'' (- 10) Increment) =
     Inr (widget\<lparr>product_stock := - 5, product_updated_at := 1710504000000\<rparr>) \<and>
   getProduct (snd (updateInventory example_env example_db ''p1'' (- 10) Increment)) ''p1'' =
     Some (widget\<lparr>product_stock := - 5, product_updated_at := 1710504000000\<rparr>)"
  by code_simp

text \<open>
  C5, as the code has it.  \<open>updateInventory\<close> checks no floor with \<open>increment\<close> and none
  with \<open>set\<close>.  For an existing product with stock \<open>s\<close> and any integer \<open>q\<close>, \<open>increment\<close>
  succeeds; the stored stock is \<open>s + q\<close> when the magnitude of \<open>s + q\<close> is at most
  \<open>2 ^ 53\<close>, and it is not negative when \<open>s\<close> and \<open>q\<close> are not.  \<open>set\<close> succeeds and stores
  \<open>q\<close>, negative or not.
\<close>

theorem updateInventory_increment:
  assumes "getProduct d productId = Some p"
  shows "(\<exists>p' d'. updateInventory e d productId q Increment = (Inr p', d') \<and>
            getProduct d' productId = Some p' \<and>
            (\<bar>product_stock p + q\<bar> \<le> 2 ^ 53 \<longrightarrow> product_stock p' = product_stock p + q) \<and>
            (0 \<le> product_stock p \<and> 0 \<le> q \<longrightarrow> 0 \<le> product_stock p')) \<and>
         (\<exists>p' d'. updateInventory e d productId q Set = (Inr p', d') \<and>
            getProduct d' productId = Some p' \<and> product_stock p' = q)"
proof -
  have n: "0 \<le> fl_int (product_stock p + q)" if "0 \<le> product_stock p \<and> 0 \<le> q"
    using that fl_int_neg_iff [of "product_stock p + q"] by simp
  show ?thesis
    using assms n
    by (auto simp: updateInventory_def updateProduct_def Let_def getProduct_def
                   apply_updates_def no_updates_def db_get_update_same fl_int_exact)
qed

theorem updateInventory_increment_witness:
  "getProduct example_db ''p1'' = Some widget \<and> 0 \<le> product_stock widget \<and> (0::int) \<le> 4 \<and>
   \<bar>product_stock widget + 4\<bar> \<le> 2 ^ 53 \<and>
   (\<exists>p' d'. updateInventory example_env example_db ''p1'' 4 Increment = (Inr p', d') \<and>
      product_stock p' = 9 \<and> getProduct d' ''p1'' = Some p' \<and> 0 \<le> product_stock p') \<and>
   (\<exists>p' d'. updateInventory example_env example_db ''p1'' (- 3) Set = (Inr p', d') \<and>
      product_stock p' = - 3 \<and> getProduct d' ''p1'' = Some p')"
proof -
  have g: "getProduct example_db ''p1'' = Some widget" by code_simp
  have s: "product_stock widget = 5" by code_simp
  from updateInventory_increment [OF g, of example_env 4] s
  have i: "\<exists>p' d'. updateInventory example_env example_db ''p1'' 4 Increment = (Inr p', d') \<and>
      product_stock p' = 9 \<and> getProduct d' ''p1'' = Some p' \<and> 0 \<le> product_stock p'"
    by auto
  from updateInventory_increment [OF g, of example_env "- 3"]
  have t: "\<exists>p' d'. updateInventory example_env example_db ''p1'' (- 3) Set = (Inr p', d') \<and>
      product_stock p' = - 3 \<and> getProduct d' ''p1'' = Some p'"
    by auto
  from g s i t show ?thesis by simp
qed

section \<open>Tax and shipping\<close>

text \<open>
  The exact product of a subtotal and 0.08 is never half way between two integers:
  \<open>4 * subtotal + 25\<close> is odd.  So one integer is nearest to it, whatever way a half is
  rounded.
\<close>

lemma no_tie:
  "of_int (Math_round (of_int s * (8 / 100))) \<noteq> (of_int s * (8 / 100) + 1 / 2 :: rat)"
proof
  assume h: "of_int (Math_round (of_int s * (8 / 100))) = (of_int s * (8 / 100) + 1 / 2 :: rat)"
  define t where "t = Math_round (of_int s * (8 / 100))"
  from h have "(of_int t :: rat) * 50 = of_int s * 4 + 25" unfolding t_def by simp
  then have "(of_int (t * 50) :: rat) = of_int (s * 4 + 25)" by simp
  then have "t * 50 = s * 4 + 25" by (simp only: of_int_eq_iff)
  then show False by presburger
qed

lemma tax_nearest:
  "\<bar>of_int (Math_round (of_int s * (8 / 100))) - (of_int s * (8 / 100) :: rat)\<bar> < 1 / 2"
proof -
  let ?x = "of_int s * (8 / 100) :: rat"
  have a: "of_int (Math_round ?x) \<le> ?x + 1 / 2" unfolding Math_round_def by (rule of_int_floor_le)
  have b: "?x + 1 / 2 < of_int (Math_round ?x) + 1" unfolding Math_round_def by linarith
  from a no_tie [of s] have "of_int (Math_round ?x) < ?x + 1 / 2" by simp
  with b show ?thesis by linarith
qed

lemma tax_div: "Math_round (of_int s * (8 / 100)) = (4 * s + 25) div 50"
proof -
  have "(of_int s * (8 / 100) + 1 / 2 :: rat) = of_int (4 * s + 25) / of_int 50" by simp
  then show ?thesis unfolding Math_round_def by (simp only: floor_divide_of_int_eq)
qed

text \<open>
  The double \<open>subtotal * 0.08\<close> differs from the exact product by the error of the literal
  \<open>0.08\<close> and by one rounding.  For a subtotal of magnitude up to \<open>10 ^ 15\<close> both together
  stay below the distance of the exact product from a tie, so \<open>Math.round\<close> returns the same
  integer for both.
\<close>

lemma Math_round_scaled: "Math_round (of_int y / 2 ^ 56) = (y + 2 ^ 55) div 2 ^ 56"
proof -
  have "(of_int y / 2 ^ 56 + 1 / 2 :: rat) = of_int (y + 2 ^ 55) / of_int (2 ^ 56)" by simp
  then show ?thesis unfolding Math_round_def by (simp only: floor_divide_of_int_eq)
qed

lemma tax_exact:
  assumes "\<bar>s\<bar> \<le> 10 ^ 15"
  shows "Math_round (times_0_08 s) = (4 * s + 25) div 50"
proof -
  define N where "N = s * 5764607523034235"
  define Y where "Y = fl_int N"
  define t where "t = (4 * s + 25) div 50"
  define \<rho> where "\<rho> = (4 * s + 25) mod 50"
  have "\<bar>N\<bar> < 2 ^ (53 + 50)"
    using assms unfolding N_def by (simp add: abs_mult)
  from fl_int_error_below [OF this] have e: "2 * \<bar>Y - N\<bar> \<le> 2 ^ 50" by (simp add: Y_def)
  have d: "4 * s + 25 = 50 * t + \<rho>" by (simp add: t_def \<rho>_def)
  have "\<rho> \<noteq> 0" unfolding \<rho>_def by presburger
  moreover have "0 \<le> \<rho>" "\<rho> < 50" by (simp_all add: \<rho>_def)
  ultimately have r: "1 \<le> \<rho>" "\<rho> \<le> 49" by simp_all
  have "Y + 2 ^ 55 = 2 ^ 56 * t + (Y + 2 ^ 55 - 2 ^ 56 * t)" by simp
  moreover have "0 \<le> Y + 2 ^ 55 - 2 ^ 56 * t"
    using e d r assms unfolding N_def by (simp; linarith)
  moreover have "Y + 2 ^ 55 - 2 ^ 56 * t < 2 ^ 56"
    using e d r assms unfolding N_def by (simp; linarith)
  ultimately have "(Y + 2 ^ 55) div 2 ^ 56 = t"
    by (rule int_div_pos_eq)
  then show ?thesis
    unfolding times_0_08_def Math_round_scaled Y_def N_def t_def .
qed

lemma calculateOrderTotal_policy:
  assumes "calculateOrderTotal d items = Inr c"
  shows "calc_tax c = Math_round (times_0_08 (calc_subtotal c))"
    and "calc_shipping c = (if calc_subtotal c > 5000 then 0 else 500)"
  using assms
  by (auto simp: calculateOrderTotal_unfold Let_def split: sum.splits if_splits)

text \<open>
  C7, as the code has it.  In every calculation \<open>calculateOrderTotal\<close> returns, shipping is 0
  when the subtotal is greater than 5000 and 500 otherwise.  When the magnitude of the
  subtotal is at most \<open>10 ^ 15\<close>, the tax is \<open>subtotal * 0.08\<close> rounded to the nearest
  integer: it is less than one half away from the exact product, and equals
  \<open>(4 * subtotal + 25) div 50\<close>.  The examples: subtotal 1000 gives tax 80; subtotals 4999
  and 5000 give shipping 500; subtotal 5001 gives shipping 0.
\<close>

theorem tax_and_shipping_policy:
  assumes "calculateOrderTotal d items = Inr c"
  shows "(\<bar>calc_subtotal c\<bar> \<le> 10 ^ 15 \<longrightarrow>
            calc_tax c = round (of_int (calc_subtotal c) * (8 / 100) :: rat) \<and>
            \<bar>of_int (calc_tax c) - (of_int (calc_subtotal c) * (8 / 100) :: rat)\<bar> < 1 / 2 \<and>
            calc_tax c = (4 * calc_subtotal c + 25) div 50) \<and>
         calc_shipping c = (if calc_subtotal c > 5000 then 0 else 500)"
proof -
  note p = calculateOrderTotal_policy [OF assms]
  have "calc_tax c = round (of_int (calc_subtotal c) * (8 / 100) :: rat) \<and>
        \<bar>of_int (calc_tax c) - (of_int (calc_subtotal c) * (8 / 100) :: rat)\<bar> < 1 / 2 \<and>
        calc_tax c = (4 * calc_subtotal c + 25) div 50"
    if b: "\<bar>calc_subtotal c\<bar> \<le> 10 ^ 15"
  proof -
    have t: "calc_tax c = Math_round (of_int (calc_subtotal c) * (8 / 100))"
      unfolding p(1) tax_exact [OF b] tax_div ..
    have "calc_tax c = round (of_int (calc_subtotal c) * (8 / 100) :: rat)"
      by (simp add: t round_def Math_round_def)
    moreover have "\<bar>of_int (calc_tax c) - (of_int (calc_subtotal c) * (8 / 100) :: rat)\<bar> < 1 / 2"
      unfolding t by (rule tax_nearest)
    moreover have "calc_tax c = (4 * calc_subtotal c + 25) div 50"
      unfolding t by (rule tax_div)
    ultimately show ?thesis by simp
  qed
  then show ?thesis using p(2) by blast
qed

theorem tax_and_shipping_policy_witness:
  "calculateOrderTotal example_db [line ''p1'' 1] = Inr example_calc \<and>
   \<bar>calc_subtotal example_calc\<bar> \<le> 10 ^ 15 \<and>
   calc_subtotal example_calc = 1000 \<and> calc_tax example_calc = 80 \<and>
   calc_tax example_calc = round (of_int (calc_subtotal example_calc) * (8 / 100) :: rat) \<and>
   calc_shipping example_calc = 500 \<and>
   map_sum id (\<lambda>c. (calc_subtotal c, calc_tax c, calc_shipping c))
     (calculateOrderTotal example_db [line ''p3'' 4999]) = Inr (4999, 400, 500) \<and>
   map_sum id (\<lambda>c. (calc_subtotal c, calc_tax c, calc_shipping c))
     (calculateOrderTotal example_db [line ''p3'' 5000]) = Inr (5000, 400, 500) \<and>
   map_sum id (\<lambda>c. (calc_subtotal c, calc_tax c, calc_shipping c))
     (calculateOrderTotal example_db [line ''p3'' 5001]) = Inr (5001, 400, 0)"
proof -
  have h: "calculateOrderTotal example_db [line ''p1'' 1] = Inr example_calc"
    by code_simp
  have v: "calc_subtotal example_calc = 1000" "calc_tax example_calc = 80"
    "calc_shipping example_calc = 500"
    by (simp_all add: example_calc_def)
  have b1: "map_sum id (\<lambda>c. (calc_subtotal c, calc_tax c, calc_shipping c))
     (calculateOrderTotal example_db [line ''p3'' 4999]) = Inr (4999, 400, 500)"
    by code_simp
  have b2: "map_sum id (\<lambda>c. (calc_subtotal c, calc_tax c, calc_shipping c))
     (calculateOrderTotal example_db [line ''p3'' 5000]) = Inr (5000, 400, 500)"
    by code_simp
  have b3: "map_sum id (\<lambda>c. (calc_subtotal c, calc_tax c, calc_shipping c))
     (calculateOrderTotal example_db [line ''p3'' 5001]) = Inr (5001, 400, 0)"
    by code_simp
  from tax_and_shipping_policy [OF h] v
  have "calc_tax example_calc = round (of_int (calc_subtotal example_calc) * (8 / 100) :: rat)"
    by simp
  with h v b1 b2 b3 show ?thesis by simp
qed

text \<open>
  For a subtotal of 3518437208882206 the double product rounds the other way: the tax
  computed is 281474976710577, and the exact product 281474976710576.48 rounds to
  281474976710576.
\<close>

theorem tax_rounded_counterexample:
  "map_sum id (\<lambda>c. (calc_subtotal c, calc_tax c))
     (calculateOrderTotal large_db [line ''p5'' 1]) =
     Inr (3518437208882206, 281474976710577) \<and>
   round (of_int 3518437208882206 * (8 / 100) :: rat) = 281474976710576"
proof -
  have a: "map_sum id (\<lambda>c. (calc_subtotal c, calc_tax c))
     (calculateOrderTotal large_db [line ''p5'' 1]) =
     Inr (3518437208882206, 281474976710577)"
    by code_simp
  have "Math_round (of_int 3518437208882206 * (8 / 100)) = 281474976710576"
    unfolding tax_div by simp
  then have b: "round (of_int 3518437208882206 * (8 / 100) :: rat) = 281474976710576"
    by (simp add: round_def Math_round_def)
  from a b show ?thesis by simp
qed

section \<open>Orders that cannot be filled\<close>

lemma calc_loop_all_exist:
  "all_products_exist d items \<Longrightarrow>
     \<exists>cs sub. calc_loop d acc s items = Inr (acc @ cs, sub) \<and>
       map cl_name (filter (\<lambda>i. \<not> cl_inStock i) cs) =
         map (line_name d) (filter (line_short d) items)"
proof (induction items arbitrary: acc s)
  case Nil
  then show ?case by simp
next
  case (Cons item items)
  from Cons.prems obtain product where g: "getProduct d (ci_productId item) = Some product"
    and rest: "all_products_exist d items"
    by (auto simp: all_products_exist_def)
  let ?ci = "\<lparr>cl_productId = ci_productId item, cl_name = product_name product,
               cl_price = product_price product, cl_quantity = ci_quantity item,
               cl_lineTotal = fl_int (product_price product * ci_quantity item),
               cl_inStock = (product_stock product \<ge> ci_quantity item)\<rparr>"
  from Cons.IH [OF rest, of "acc @ [?ci]" "fl_int (s + fl_int (product_price product * ci_quantity item))"]
  obtain cs sub where
    l: "calc_loop d (acc @ [?ci]) (fl_int (s + fl_int (product_price product * ci_quantity item))) items =
          Inr ((acc @ [?ci]) @ cs, sub)"
    and n: "map cl_name (filter (\<lambda>i. \<not> cl_inStock i) cs) =
              map (line_name d) (filter (line_short d) items)"
    by blast
  have "calc_loop d acc s (item # items) = Inr (acc @ (?ci # cs), sub)"
    using g l by (simp add: Let_def)
  moreover have "map cl_name (filter (\<lambda>i. \<not> cl_inStock i) (?ci # cs)) =
                   map (line_name d) (filter (line_short d) (item # items))"
    using g n by (auto simp: line_short_def line_name_def)
  ultimately show ?case by blast
qed

lemma calculateOrderTotal_out_of_stock:
  assumes "all_products_exist d items" and "filter (line_short d) items \<noteq> []"
  shows "calculateOrderTotal d items =
           Inl (ItemsOutOfStock (map (line_name d) (filter (line_short d) items)))"
proof -
  from calc_loop_all_exist [OF assms(1), of "[]" 0]
  obtain cs sub where l: "calc_loop d [] 0 items = Inr (cs, sub)"
    and n: "map cl_name (filter (\<lambda>i. \<not> cl_inStock i) cs) =
              map (line_name d) (filter (line_short d) items)"
    by auto
  from n assms(2) have "filter (\<lambda>i. \<not> cl_inStock i) cs \<noteq> []" by auto
  then have "\<not> list_all cl_inStock cs"
    by (auto simp: list_all_iff filter_empty_conv)
  with l n show ?thesis by (simp add: calculateOrderTotal_unfold Let_def)
qed

text \<open>
  C3, as the code has it.  When every line of the input names an existing product and some
  line asks for more than the stock of its product, \<open>createOrder\<close> fails with the aggregate
  error that lists the product name of every such line, in the order of the lines, and the
  store is unchanged: no order, no \<open>order_items\<close> row, no stock.  The store is unchanged
  whenever the calculation of the totals fails, whatever the error.
\<close>

theorem createOrder_out_of_stock:
  "(all_products_exist d (in_items input) \<and> filter (line_short d) (in_items input) \<noteq> [] \<longrightarrow>
      createOrder e d input =
        (Inl (ItemsOutOfStock (map (line_name d) (filter (line_short d) (in_items input)))), d)) \<and>
   (calculateOrderTotal d (in_items input) = Inl err \<longrightarrow>
      createOrder e d input = (Inl err, d))"
  using calculateOrderTotal_out_of_stock [of d "in_items input"]
    createOrder_failed_calculation [of d input _ e]
  by blast

theorem createOrder_out_of_stock_witness:
  "all_products_exist example_db [line ''p1'' 10, line ''p2'' 1, line ''p2'' 2] \<and>
   filter (line_short example_db) [line ''p1'' 10, line ''p2'' 1, line ''p2'' 2] =
     [line ''p1'' 10, line ''p2'' 2] \<and>
   calculateOrderTotal example_db [line ''p1'' 10, line ''p2'' 1, line ''p2'' 2] =
     Inl (ItemsOutOfStock [''Widget'', ''Gadget'']) \<and>
   createOrder example_env example_db
       (example_input [line ''p1'' 10, line ''p2'' 1, line ''p2'' 2]) =
     (Inl (ItemsOutOfStock [''Widget'', ''Gadget'']), example_db)"
proof -
  let ?items = "[line ''p1'' 10, line ''p2'' 1, line ''p2'' 2]"
  have i: "in_items (example_input ?items) = ?items" by (simp add: example_input_def)
  have a: "all_products_exist example_db ?items" by code_simp
  have f: "filter (line_short example_db) ?items = [line ''p1'' 10, line ''p2'' 2]" by code_simp
  have n: "map (line_name example_db) [line ''p1'' 10, line ''p2'' 2] = [''Widget'', ''Gadget'']"
    by code_simp
  have c: "calculateOrderTotal example_db ?items = Inl (ItemsOutOfStock [''Widget'', ''Gadget''])"
    by code_simp
  from createOrder_out_of_stock
         [of example_db "example_input ?items" example_env "ItemsOutOfStock [''Widget'', ''Gadget'']"]
    a f n c i
  show ?thesis by simp
qed

text \<open>
  An input with a line that exceeds the stock and another line whose product does not exist
  fails with the not-found error of the loop, not with the aggregate error.
\<close>

theorem createOrder_missing_product_counterexample:
  "line_short example_db (line ''p1'' 10) \<and>
   getProduct example_db ''ghost'' = None \<and>
   createOrder example_env example_db (example_input [line ''p1'' 10, line ''ghost'' 1]) =
     (Inl (ProductNotFound ''ghost''), example_db)"
  by code_simp

section \<open>A decrement that fails after the order is on record\<close>

lemma calc_loop_lines:
  "calc_loop d acc s items = Inr (cs, sub) \<Longrightarrow>
     \<exists>new. cs = acc @ new \<and>
       map cl_productId new = map ci_productId items \<and>
       map cl_quantity new = map ci_quantity items"
proof (induction items arbitrary: acc s)
  case Nil
  then show ?case by simp
next
  case (Cons item items)
  from Cons.prems obtain product where g: "getProduct d (ci_productId item) = Some product"
    by (auto split: option.splits)
  let ?ci = "\<lparr>cl_productId = ci_productId item, cl_name = product_name product,
               cl_price = product_price product, cl_quantity = ci_quantity item,
               cl_lineTotal = fl_int (product_price product * ci_quantity item),
               cl_inStock = (product_stock product \<ge> ci_quantity item)\<rparr>"
  from Cons.prems g
  have "calc_loop d (acc @ [?ci]) (fl_int (s + fl_int (product_price product * ci_quantity item))) items =
          Inr (cs, sub)"
    by (simp add: Let_def)
  from Cons.IH [OF this] obtain new where
    "cs = (acc @ [?ci]) @ new" "map cl_productId new = map ci_productId items"
    "map cl_quantity new = map ci_quantity items"
    by blast
  then have "cs = acc @ (?ci # new) \<and>
             map cl_productId (?ci # new) = map ci_productId (item # items) \<and>
             map cl_quantity (?ci # new) = map ci_quantity (item # items)"
    by simp
  then show ?case by blast
qed

lemma calculateOrderTotal_lines:
  "calculateOrderTotal d items = Inr c \<Longrightarrow>
     map cl_productId (calc_items c) = map ci_productId items \<and>
     map cl_quantity (calc_items c) = map ci_quantity items"
  by (auto simp: calculateOrderTotal_unfold Let_def split: sum.splits if_splits
           dest!: calc_loop_lines)

lemma item_rows_lines:
  "map oir_productId (item_rows e oid n items) = map oi_productId items \<and>
   map oir_quantity (item_rows e oid n items) = map oi_quantity items \<and>
   map oir_orderId (item_rows e oid n items) = replicate (length items) oid"
  by (induction items arbitrary: n) auto

lemma new_rows_lines:
  assumes "calculateOrderTotal d (in_items input) = Inr c"
  shows "map oir_productId (new_rows e input c) = map ci_productId (in_items input)"
    and "map oir_quantity (new_rows e input c) = map ci_quantity (in_items input)"
    and "map oir_orderId (new_rows e input c) =
           replicate (length (in_items input)) (order_id (new_order e input c))"
proof -
  note l = calculateOrderTotal_lines [OF assms]
  have len: "length (calc_items c) = length (in_items input)"
    using l [THEN conjunct1] by (metis length_map)
  show "map oir_productId (new_rows e input c) = map ci_productId (in_items input)"
    using l by (simp add: new_rows_def item_rows_lines new_order_def comp_def)
  show "map oir_quantity (new_rows e input c) = map ci_quantity (in_items input)"
    using l by (simp add: new_rows_def item_rows_lines new_order_def comp_def)
  show "map oir_orderId (new_rows e input c) =
           replicate (length (in_items input)) (order_id (new_order e input c))"
    using len by (simp add: new_rows_def item_rows_lines new_order_def)
qed

lemma bulk_loop_results:
  "bulk_loop e d rs us =
     (case bulk_loop e d [] us of
        (Inl err, d') \<Rightarrow> (Inl err, d')
      | (Inr ps, d') \<Rightarrow> (Inr (rs @ ps), d'))"
proof (induction us arbitrary: d rs)
  case Nil
  show ?case by simp
next
  case (Cons u us)
  obtain r1 d1 where u1:
    "updateInventory e d (iu_productId u) (iu_quantity u) (iu_operation u) = (r1, d1)"
    by (cases "updateInventory e d (iu_productId u) (iu_quantity u) (iu_operation u)")
  show ?case
  proof (cases r1)
    case (Inl err)
    with u1 show ?thesis by simp
  next
    case (Inr p)
    obtain r2 d2 where b: "bulk_loop e d1 [] us = (r2, d2)"
      by (cases "bulk_loop e d1 [] us")
    have "bulk_loop e d1 (rs @ [p]) us =
            (case r2 of Inl err \<Rightarrow> (Inl err, d2) | Inr ps \<Rightarrow> (Inr ((rs @ [p]) @ ps), d2))"
      using Cons.IH [of d1 "rs @ [p]"] b by simp
    moreover have "bulk_loop e d1 [p] us =
            (case r2 of Inl err \<Rightarrow> (Inl err, d2) | Inr ps \<Rightarrow> (Inr ([p] @ ps), d2))"
      using Cons.IH [of d1 "[p]"] b by simp
    ultimately show ?thesis
      using u1 Inr by (cases r2) simp_all
  qed
qed

lemma bulkUpdateInventory_Nil: "bulkUpdateInventory e d [] = (Inr [], d)"
  by (simp add: bulkUpdateInventory_def)

lemma bulkUpdateInventory_Cons:
  "bulkUpdateInventory e d (u # us) =
     (case updateInventory e d (iu_productId u) (iu_quantity u) (iu_operation u) of
        (Inl err, d') \<Rightarrow> (Inl err, d')
      | (Inr product, d') \<Rightarrow>
          (case bulkUpdateInventory e d' us of
             (Inl err, d'') \<Rightarrow> (Inl err, d'')
           | (Inr rest, d'') \<Rightarrow> (Inr (product # rest), d'')))"
proof -
  obtain r1 d1 where u1:
    "updateInventory e d (iu_productId u) (iu_quantity u) (iu_operation u) = (r1, d1)"
    by (cases "updateInventory e d (iu_productId u) (iu_quantity u) (iu_operation u)")
  show ?thesis
  proof (cases r1)
    case (Inl err)
    with u1 show ?thesis by (simp add: bulkUpdateInventory_def)
  next
    case (Inr p)
    obtain r2 d2 where b: "bulk_loop e d1 [] us = (r2, d2)"
      by (cases "bulk_loop e d1 [] us")
    have "bulk_loop e d1 [p] us =
            (case r2 of Inl err \<Rightarrow> (Inl err, d2) | Inr ps \<Rightarrow> (Inr ([p] @ ps), d2))"
      using bulk_loop_results [of e d1 "[p]" us] b by simp
    with u1 Inr b show ?thesis
      by (cases r2) (simp_all add: bulkUpdateInventory_def)
  qed
qed

text \<open>
  C4.  \<open>bulkUpdateInventory\<close> applies its entries one after the other in the order of the
  list: on no entry it returns the store as it is; otherwise it applies \<open>updateInventory\<close> to
  the first entry, stops with its error and the store it left when that fails, and goes on
  with the other entries from the store it returned when it succeeds.  So when the entries
  \<open>us1\<close> succeed and lead to the store \<open>d1\<close>, and the next entry \<open>u\<close> fails there with
  \<open>err\<close>, the whole call fails with \<open>err\<close> and leaves \<open>d1\<close>, with the updates of \<open>us1\<close>
  applied.  \<open>createOrder\<close> has inserted the order and its \<open>order_items\<close> rows before: when
  its decrements fail in this way it fails with \<open>err\<close>, and the store holds the new order,
  one row per line, and the stock of \<open>d1\<close>.
\<close>

theorem partial_decrement_is_kept:
  assumes "bulkUpdateInventory e d us1 = (Inr rs, d1)"
    and "updateInventory e d1 (iu_productId u) (iu_quantity u) (iu_operation u) = (Inl err, d1')"
  shows "bulkUpdateInventory e d0 [] = (Inr [], d0) \<and>
         bulkUpdateInventory e d0 (u0 # us0) =
           (case updateInventory e d0 (iu_productId u0) (iu_quantity u0) (iu_operation u0) of
              (Inl err, d') \<Rightarrow> (Inl err, d')
            | (Inr product, d') \<Rightarrow>
                (case bulkUpdateInventory e d' us0 of
                   (Inl err, d'') \<Rightarrow> (Inl err, d'')
                 | (Inr rest, d'') \<Rightarrow> (Inr (product # rest), d''))) \<and>
         bulkUpdateInventory e d (us1 @ u # us2) = (Inl err, d1) \<and>
         (calculateOrderTotal d (in_items input) = Inr c \<and>
          decrements (in_items input) = us1 @ u # us2 \<longrightarrow>
            createOrder e d input =
              (Inl err,
               d1\<lparr>orders := orders d @ [new_order e input c],
                  order_items_rows := order_items_rows d @ new_rows e input c\<rparr>) \<and>
            map oir_productId (new_rows e input c) = map ci_productId (in_items input) \<and>
            map oir_orderId (new_rows e input c) =
              replicate (length (in_items input)) (order_id (new_order e input c)))"
proof -
  have same: "d1' = d1" using assms(2) by (rule updateInventory_failure_unchanged)
  have bulk: "bulkUpdateInventory e d (us1 @ u # us2) = (Inl err, d1)"
    using assms same by (simp add: bulkUpdateInventory_def bulk_loop_append)
  have "createOrder e d input =
          (Inl err,
           d1\<lparr>orders := orders d @ [new_order e input c],
              order_items_rows := order_items_rows d @ new_rows e input c\<rparr>)"
    if "calculateOrderTotal d (in_items input) = Inr c"
      and "decrements (in_items input) = us1 @ u # us2"
    using createOrder_eq [OF that(1), of e "Inl err" d1] bulk that(2) by simp
  then show ?thesis
    using bulk new_rows_lines [of d input c e]
      bulkUpdateInventory_Nil [of e d0] bulkUpdateInventory_Cons [of e d0 u0 us0]
    by blast
qed


theorem partial_decrement_is_kept_witness:
  "bulkUpdateInventory example_env example_db (decrements [line ''p3'' 1, line ''p1'' 3]) =
     (Inr [penny\<lparr>product_stock := 9999, product_updated_at := 1710504000000\<rparr>,
           widget\<lparr>product_stock := 2, product_updated_at := 1710504000000\<rparr>],
      example_db\<lparr>products :=
        [widget\<lparr>product_stock := 2, product_updated_at := 1710504000000\<rparr>, gadget,
         penny\<lparr>product_stock := 9999, product_updated_at := 1710504000000\<rparr>]\<rparr>) \<and>
   bulkUpdateInventory example_env example_db
       (decrements [line ''p3'' 1, line ''p1'' 3, line ''p1'' 3, line ''p3'' 1]) =
     (Inl (InsufficientStock ''p1'' 2 3),
      example_db\<lparr>products :=
        [widget\<lparr>product_stock := 2, product_updated_at := 1710504000000\<rparr>, gadget,
         penny\<lparr>product_stock := 9999, product_updated_at := 1710504000000\<rparr>]\<rparr>) \<and>
   fst (createOrder example_env example_db
          (example_input [line ''p3'' 1, line ''p1'' 3, line ''p1'' 3, line ''p3'' 1])) =
     Inl (InsufficientStock ''p1'' 2 3) \<and>
   map order_total (orders (snd (createOrder example_env example_db
          (example_input [line ''p3'' 1, line ''p1'' 3, line ''p1'' 3, line ''p3'' 1])))) =
     [6482] \<and>
   map oir_productId (order_items_rows (snd (createOrder example_env example_db
          (example_input [line ''p3'' 1, line ''p1'' 3, line ''p1'' 3, line ''p3'' 1])))) =
     [''p3'', ''p1'', ''p1'', ''p3''] \<and>
   map product_stock (products (snd (createOrder example_env example_db
          (example_input [line ''p3'' 1, line ''p1'' 3, line ''p1'' 3, line ''p3'' 1])))) =
     [2, 1, 9999]"
proof -
  let ?items = "[line ''p3'' 1, line ''p1'' 3, line ''p1'' 3, line ''p3'' 1]"
  let ?d1 = "example_db\<lparr>products :=
        [widget\<lparr>product_stock := 2, product_updated_at := 1710504000000\<rparr>, gadget,
         penny\<lparr>product_stock := 9999, product_updated_at := 1710504000000\<rparr>]\<rparr>"
  let ?c = "projr (calculateOrderTotal example_db ?items)"
  have pre: "bulkUpdateInventory example_env example_db (decrements [line ''p3'' 1, line ''p1'' 3]) =
     (Inr [penny\<lparr>product_stock := 9999, product_updated_at := 1710504000000\<rparr>,
           widget\<lparr>product_stock := 2, product_updated_at := 1710504000000\<rparr>], ?d1)"
    by code_simp
  have fail: "updateInventory example_env ?d1 ''p1'' 3 Decrement =
                (Inl (InsufficientStock ''p1'' 2 3), ?d1)"
    by code_simp
  have calc: "calculateOrderTotal example_db (in_items (example_input ?items)) = Inr ?c"
    by code_simp
  have split: "decrements (in_items (example_input ?items)) =
                 decrements [line ''p3'' 1, line ''p1'' 3] @
                 \<lparr>iu_productId = ''p1'', iu_quantity = 3, iu_operation = Decrement\<rparr> #
                 decrements [line ''p3'' 1]"
    by code_simp
  have t: "order_total (new_order example_env (example_input ?items) ?c) = 6482"
    by code_simp
  have s: "map product_stock (products ?d1) = [2, 1, 9999]"
    by code_simp
  note T = partial_decrement_is_kept
             [where e = example_env and d = example_db
                and ?us1.0 = "decrements [line ''p3'' 1, line ''p1'' 3]" and ?d1.0 = ?d1
                and u = "\<lparr>iu_productId = ''p1'', iu_quantity = 3, iu_operation = Decrement\<rparr>"
                and err = "InsufficientStock ''p1'' 2 3" and d1' = ?d1
                and ?us2.0 = "decrements [line ''p3'' 1]"
                and input = "example_input ?items" and c = ?c
                and ?d0.0 = example_db and ?u0.0 = "\<lparr>iu_productId = ''p1'', iu_quantity = 3,
                  iu_operation = Decrement\<rparr>" and ?us0.0 = "[]", OF pre]
  from T fail calc split
  have b: "bulkUpdateInventory example_env example_db (decrements ?items) =
             (Inl (InsufficientStock ''p1'' 2 3), ?d1)"
    and co: "createOrder example_env example_db (example_input ?items) =
              (Inl (InsufficientStock ''p1'' 2 3),
               ?d1\<lparr>orders := orders example_db @ [new_order example_env (example_input ?items) ?c],
                  order_items_rows := order_items_rows example_db @
                    new_rows example_env (example_input ?items) ?c\<rparr>)"
    and rows: "map oir_productId (new_rows example_env (example_input ?items) ?c) =
                 map ci_productId (in_items (example_input ?items))"
    by (simp_all add: example_input_def)
  have e: "orders example_db = []" "order_items_rows example_db = []"
    by (simp_all add: example_db_def)
  have ids: "map ci_productId (in_items (example_input ?items)) = [''p3'', ''p1'', ''p1'', ''p3'']"
    by code_simp
  from pre b co rows t s e ids show ?thesis by simp
qed

section \<open>Checkout\<close>

lemma createOrder_carts: "createOrder e d input = (r, d') \<Longrightarrow> carts d' = carts d"
  by (drule createOrder_orders) auto

lemma clear_fold:
  "fold (\<lambda>item d'. d'\<lparr>carts := db_delete cart_id (carts d') (cart_id item)\<rparr>) items d =
     d\<lparr>carts := filter (\<lambda>r. cart_id r \<notin> cart_id ` set items) (carts d)\<rparr>"
proof (induction items arbitrary: d)
  case Nil
  show ?case by simp
next
  case (Cons item items)
  show ?case
    by (simp only: fold_Cons comp_apply Cons.IH) (simp add: db_delete_def conj_commute)
qed

lemma clearCart_eq:
  "clearCart d userId =
     d\<lparr>carts := filter (\<lambda>r. cart_id r \<notin> cart_id ` {r \<in> set (carts d). cart_userId r = userId})
                   (carts d)\<rparr>"
  by (simp add: clearCart_def Let_def clear_fold)

lemma getCart_clearCart: "getCart (clearCart d userId) userId = []"
  by (auto simp: clearCart_eq getCart_def filter_empty_conv)

lemma clearCart_frame:
  "products (clearCart d userId) = products d \<and> orders (clearCart d userId) = orders d \<and>
   order_items_rows (clearCart d userId) = order_items_rows d"
  by (simp add: clearCart_eq)

text \<open>
  C8.  With no cart row for the user, \<open>checkout\<close> fails with the empty-cart error and the
  store is unchanged.  Otherwise it calls \<open>createOrder\<close> on the lines of the cart.  When
  that fails, \<open>checkout\<close> fails with the same error, and the \<open>carts\<close> collection is the
  one before the call.  When it succeeds, the \<open>carts\<close> collection is still the one before
  the call, and only then \<open>clearCart\<close> runs: it leaves the user no row and touches no other
  collection.
\<close>

theorem checkout_clears_cart_only_after_success:
  "(getCart d userId = [] \<longrightarrow>
      checkout e d userId shippingAddress paymentMethodId = (Inl CartIsEmpty, d)) \<and>
   (getCart d userId \<noteq> [] \<and>
    createOrder e d
      \<lparr>in_userId = userId, in_items = getCart d userId, in_shippingAddress = shippingAddress,
       in_billingAddress = None, in_paymentMethodId = paymentMethodId, in_notes = None\<rparr> =
      (Inl err, d') \<longrightarrow>
      checkout e d userId shippingAddress paymentMethodId = (Inl err, d') \<and>
      carts d' = carts d) \<and>
   (getCart d userId \<noteq> [] \<and>
    createOrder e d
      \<lparr>in_userId = userId, in_items = getCart d userId, in_shippingAddress = shippingAddress,
       in_billingAddress = None, in_paymentMethodId = paymentMethodId, in_notes = None\<rparr> =
      (Inr ord, d'') \<longrightarrow>
      checkout e d userId shippingAddress paymentMethodId = (Inr ord, clearCart d'' userId) \<and>
      carts d'' = carts d \<and>
      getCart (clearCart d'' userId) userId = [] \<and>
      products (clearCart d'' userId) = products d'' \<and>
      orders (clearCart d'' userId) = orders d'' \<and>
      order_items_rows (clearCart d'' userId) = order_items_rows d'')"
proof (intro conjI impI)
  assume "getCart d userId = []"
  then show "checkout e d userId shippingAddress paymentMethodId = (Inl CartIsEmpty, d)"
    by (simp add: checkout_def)
next
  assume a: "getCart d userId \<noteq> [] \<and>
    createOrder e d
      \<lparr>in_userId = userId, in_items = getCart d userId, in_shippingAddress = shippingAddress,
       in_billingAddress = None, in_paymentMethodId = paymentMethodId, in_notes = None\<rparr> =
      (Inl err, d')"
  then show "checkout e d userId shippingAddress paymentMethodId = (Inl err, d')"
    by (simp add: checkout_def Let_def cart_item_copy)
  from a show "carts d' = carts d"
    by (blast dest: createOrder_carts)
next
  assume a: "getCart d userId \<noteq> [] \<and>
    createOrder e d
      \<lparr>in_userId = userId, in_items = getCart d userId, in_shippingAddress = shippingAddress,
       in_billingAddress = None, in_paymentMethodId = paymentMethodId, in_notes = None\<rparr> =
      (Inr ord, d'')"
  then show "checkout e d userId shippingAddress paymentMethodId = (Inr ord, clearCart d'' userId)"
    by (simp add: checkout_def Let_def cart_item_copy)
  from a show "carts d'' = carts d"
    by (blast dest: createOrder_carts)
  show "getCart (clearCart d'' userId) userId = []"
    by (rule getCart_clearCart)
  show "products (clearCart d'' userId) = products d''"
    "orders (clearCart d'' userId) = orders d''"
    "order_items_rows (clearCart d'' userId) = order_items_rows d''"
    by (simp_all add: clearCart_frame)
qed


theorem checkout_clears_cart_only_after_success_witness:
  "getCart example_db ''carol'' = [] \<and>
   checkout example_env example_db ''carol'' example_address None = (Inl CartIsEmpty, example_db) \<and>
   getCart example_db ''bob'' = [line ''p2'' 3] \<and>
   checkout example_env example_db ''bob'' example_address None =
     (Inl (ItemsOutOfStock [''Gadget'']), example_db) \<and>
   getCart example_db ''alice'' = [line ''p1'' 2] \<and>
   fst (checkout example_env example_db ''alice'' example_address None) =
     fst (createOrder example_env example_db (example_input [line ''p1'' 2])) \<and>
   map order_total (orders (snd (checkout example_env example_db ''alice'' example_address None))) =
     [2660] \<and>
   map cart_id (carts (snd (createOrder example_env example_db (example_input [line ''p1'' 2])))) =
     [''c1'', ''c2''] \<and>
   map cart_id (carts (snd (checkout example_env example_db ''alice'' example_address None))) =
     [''c2'']"
proof -
  let ?in = "\<lambda>u. \<lparr>in_userId = u, in_items = getCart example_db u,
                    in_shippingAddress = example_address, in_billingAddress = None,
                    in_paymentMethodId = None, in_notes = None\<rparr>"
  let ?ok = "createOrder example_env example_db (example_input [line ''p1'' 2])"
  have c: "getCart example_db ''carol'' = []" by code_simp
  have b: "getCart example_db ''bob'' = [line ''p2'' 3]" by code_simp
  have a: "getCart example_db ''alice'' = [line ''p1'' 2]" by code_simp
  have bf: "createOrder example_env example_db (?in ''bob'') =
              (Inl (ItemsOutOfStock [''Gadget'']), example_db)"
    by code_simp
  have ai: "?in ''alice'' = example_input [line ''p1'' 2]"
    by (simp add: a example_input_def)
  have ao: "createOrder example_env example_db (?in ''alice'') = (Inr (projr (fst ?ok)), snd ?ok)"
    unfolding ai by code_simp
  have t: "map order_total (orders (clearCart (snd ?ok) ''alice'')) = [2660]"
    by code_simp
  have k1: "map cart_id (carts (snd ?ok)) = [''c1'', ''c2'']"
    by code_simp
  have k2: "map cart_id (carts (clearCart (snd ?ok) ''alice'')) = [''c2'']"
    by code_simp
  have f: "fst ?ok = Inr (projr (fst ?ok))"
    by code_simp
  note T = checkout_clears_cart_only_after_success
  from T [of example_db "''carol''" example_env example_address None] c
  have r1: "checkout example_env example_db ''carol'' example_address None =
              (Inl CartIsEmpty, example_db)"
    by blast
  from T [of example_db "''bob''" example_env example_address None
             "ItemsOutOfStock [''Gadget'']" example_db] b bf
  have r2: "checkout example_env example_db ''bob'' example_address None =
              (Inl (ItemsOutOfStock [''Gadget'']), example_db)"
    by simp
  from T [of example_db "''alice''" example_env example_address None _ _
             "projr (fst ?ok)" "snd ?ok"] a ao
  have r3: "checkout example_env example_db ''alice'' example_address None =
              (Inr (projr (fst ?ok)), clearCart (snd ?ok) ''alice'')"
    by simp
  from c b a r1 r2 r3 t k1 k2 f show ?thesis by simp
qed

section \<open>Cart round trip\<close>

text \<open>
  C9.  Start from a store with no cart row for user \<open>u\<close> and product \<open>p\<close>, where
  \<open>updateCartItem\<close> fails with the not-found error and changes nothing.  When the identifier
  drawn for the new row is not the identifier of a row in the cart collection, adding 2 and
  then 3 of \<open>p\<close> leaves exactly one row for \<open>u\<close> and \<open>p\<close>, with quantity 5, and the cart
  returned lists \<open>p\<close> once with quantity 5; \<open>updateCartItem\<close> with quantity 0 then deletes
  the row, gives back the store from before the two additions, and the cart it returns has
  no line for \<open>p\<close>.
\<close>

theorem cart_round_trip:
  assumes "cart_rows_of d u p = []" and "env_uuid e1 0 \<notin> cart_id ` set (carts d)"
  shows "updateCartItem e0 d u p q = (Inl (CartItemNotFound p), d) \<and>
    (let d1 = snd (addToCart e1 d u (line p 2));
         d2 = snd (addToCart e2 d1 u (line p 3))
     in map cart_quantity (cart_rows_of d2 u p) = [5] \<and>
        fst (addToCart e2 d1 u (line p 3)) = getCart d2 u \<and>
        filter (\<lambda>i. ci_productId i = p) (getCart d2 u) = [line p 5] \<and>
        updateCartItem e3 d2 u p 0 = (Inr (getCart d u), d) \<and>
        filter (\<lambda>i. ci_productId i = p) (getCart d u) = [])"
proof -
  let ?uuid = "env_uuid e1 0"
  let ?new = "\<lparr>cart_id = ?uuid, cart_userId = u, cart_productId = p, cart_quantity = 2,
               cart_created_at = env_now e1, cart_updated_at = env_now e1\<rparr>"
  let ?new' = "\<lparr>cart_id = ?uuid, cart_userId = u, cart_productId = p, cart_quantity = 5,
                cart_created_at = env_now e1, cart_updated_at = env_now e2\<rparr>"
  let ?d1 = "d\<lparr>carts := carts d @ [?new]\<rparr>"
  let ?d2 = "d\<lparr>carts := carts d @ [?new']\<rparr>"
  have none: "filter (\<lambda>r. cart_userId r = u \<and> cart_productId r = p) (carts d) = []"
    using assms(1) by (simp add: cart_rows_of_def)
  have nf: "updateCartItem e0 d u p q = (Inl (CartItemNotFound p), d)"
    by (simp add: updateCartItem_def none Let_def)
  have d1: "snd (addToCart e1 d u (line p 2)) = ?d1"
    by (simp add: addToCart_def none line_def db_insert_def Let_def)
  have upd: "db_update cart_id (carts d @ [?new]) ?uuid ?new' = carts d @ [?new']"
    using db_update_fresh [OF assms(2)] by (simp add: db_update_def)
  have five: "fl_int 5 = 5" by (rule fl_int_exact) simp
  have a2: "addToCart e2 ?d1 u (line p 3) = (getCart ?d2 u, ?d2)"
    by (simp add: addToCart_def none line_def five upd Let_def)
  have rows: "cart_rows_of ?d2 u p = [?new']"
    by (simp add: cart_rows_of_def none)
  have gone: "filter (\<lambda>i. ci_productId i = p) (getCart d u) = []"
    using none by (auto simp: getCart_def filter_empty_conv)
  have one: "filter (\<lambda>i. ci_productId i = p) (getCart ?d2 u) = [line p 5]"
    using gone by (simp add: getCart_def line_def)
  have del: "db_delete cart_id (carts d @ [?new']) ?uuid = carts d"
    using db_delete_fresh [OF assms(2)] by (simp add: db_delete_def)
  have u3: "updateCartItem e3 ?d2 u p 0 = (Inr (getCart d u), d)"
    by (simp add: updateCartItem_def none del Let_def)
  show ?thesis
    unfolding Let_def d1 a2 using nf rows one u3 gone by simp
qed

theorem cart_round_trip_witness:
  "cart_rows_of example_db ''alice'' ''p2'' = [] \<and>
   env_uuid example_env 0 \<notin> cart_id ` set (carts example_db) \<and>
   updateCartItem example_env example_db ''alice'' ''p2'' 4 =
     (Inl (CartItemNotFound ''p2''), example_db) \<and>
   getCart (snd (addToCart example_env
                   (snd (addToCart example_env example_db ''alice'' (line ''p2'' 2)))
                   ''alice'' (line ''p2'' 3))) ''alice'' =
     [line ''p1'' 2, line ''p2'' 5] \<and>
   updateCartItem example_env
       (snd (addToCart example_env
               (snd (addToCart example_env example_db ''alice'' (line ''p2'' 2)))
               ''alice'' (line ''p2'' 3))) ''alice'' ''p2'' 0 =
     (Inr [line ''p1'' 2], example_db)"
proof -
  have h1: "cart_rows_of example_db ''alice'' ''p2'' = []" by code_simp
  have h2: "env_uuid example_env 0 \<notin> cart_id ` set (carts example_db)"
    by (simp add: example_env_def example_db_def)
  have g: "getCart example_db ''alice'' = [line ''p1'' 2]" by code_simp
  have g2: "getCart (snd (addToCart example_env
                   (snd (addToCart example_env example_db ''alice'' (line ''p2'' 2)))
                   ''alice'' (line ''p2'' 3))) ''alice'' =
     [line ''p1'' 2, line ''p2'' 5]"
    by code_simp
  from cart_round_trip [OF h1 h2, of example_env 4 example_env example_env] h1 h2 g g2
  show ?thesis by (simp add: Let_def)
qed

section \<open>The active flag and the order path\<close>

text \<open>
  \<open>all_active\<close> sets the flag of every product.  Each operation of the order path gives the
  same result on a store and on the store with every flag set, and the stores it leaves
  differ in the flags only.
\<close>

lemma db_get_map_activate:
  "db_get product_id (map activate ps) i = map_option activate (db_get product_id ps i)"
  unfolding db_get_def by (induction ps) (auto simp: activate_def)

lemma getProduct_all_active:
  "getProduct (all_active d) productId = map_option activate (getProduct d productId)"
  by (simp add: getProduct_def all_active_def db_get_map_activate)

lemma calc_loop_all_active:
  "calc_loop (all_active d) acc s items = calc_loop d acc s items"
proof (induction items arbitrary: acc s)
  case Nil
  show ?case by simp
next
  case (Cons item items)
  show ?case
    by (cases "getProduct d (ci_productId item)")
       (simp_all add: getProduct_all_active Cons.IH activate_def Let_def)
qed

lemma calculateOrderTotal_all_active:
  "calculateOrderTotal (all_active d) items = calculateOrderTotal d items"
  by (simp add: calculateOrderTotal_unfold calc_loop_all_active)

lemma db_update_map_activate:
  "db_update product_id (map activate ps) i (activate p') =
     map activate (db_update product_id ps i p')"
  unfolding db_update_def by (induction ps) (auto simp: activate_def)

lemma updateProduct_all_active:
  assumes "upd_isActive u = None"
  shows "updateProduct e (all_active d) productId u =
           (case updateProduct e d productId u of
              (r, d') \<Rightarrow> (map_sum id activate r, all_active d'))"
proof (cases "getProduct d productId")
  case None
  then show ?thesis
    by (simp add: updateProduct_def getProduct_all_active)
next
  case (Some existing)
  have a: "(apply_updates u (activate existing))
              \<lparr>product_id := productId, product_updated_at := env_now e\<rparr> =
           activate ((apply_updates u existing)
              \<lparr>product_id := productId, product_updated_at := env_now e\<rparr>)"
    using assms by (simp add: apply_updates_def activate_def split: option.splits)
  have p: "products (all_active d) = map activate (products d)"
    by (simp add: all_active_def)
  show ?thesis
    using Some
    by (simp add: updateProduct_def getProduct_all_active Let_def a p db_update_map_activate)
       (simp add: all_active_def)
qed

lemma updateInventory_all_active:
  "updateInventory e (all_active d) productId q op =
     (case updateInventory e d productId q op of
        (r, d') \<Rightarrow> (map_sum id activate r, all_active d'))"
proof (cases "getProduct d productId")
  case None
  then show ?thesis
    by (simp add: updateInventory_def getProduct_all_active)
next
  case (Some product)
  have s: "product_stock (activate product) = product_stock product"
    by (simp add: activate_def)
  show ?thesis
    using Some
    by (cases op)
       (simp_all add: updateInventory_def getProduct_all_active s Let_def
                      updateProduct_all_active no_updates_def)
qed

lemma bulk_loop_all_active:
  "bulk_loop e (all_active d) (map activate rs) us =
     (case bulk_loop e d rs us of
        (r, d') \<Rightarrow> (map_sum id (map activate) r, all_active d'))"
proof (induction us arbitrary: d rs)
  case Nil
  show ?case by simp
next
  case (Cons u us)
  obtain r1 d1 where u1:
    "updateInventory e d (iu_productId u) (iu_quantity u) (iu_operation u) = (r1, d1)"
    by (cases "updateInventory e d (iu_productId u) (iu_quantity u) (iu_operation u)")
  show ?case
  proof (cases r1)
    case (Inl err)
    with u1 show ?thesis by (simp add: updateInventory_all_active)
  next
    case (Inr p)
    have "bulk_loop e (all_active d1) (map activate (rs @ [p])) us =
            (case bulk_loop e d1 (rs @ [p]) us of
               (r, d') \<Rightarrow> (map_sum id (map activate) r, all_active d'))"
      by (rule Cons.IH)
    with u1 Inr show ?thesis by (simp add: updateInventory_all_active id_def split: prod.splits)
  qed
qed

lemma all_active_other_fields:
  "orders (all_active d) = orders d" "order_items_rows (all_active d) = order_items_rows d"
  "carts (all_active d) = carts d"
  by (simp_all add: all_active_def)

lemma all_active_record_update:
  "all_active (d\<lparr>orders := os, order_items_rows := rows\<rparr>) =
     (all_active d)\<lparr>orders := os, order_items_rows := rows\<rparr>"
  by (simp add: all_active_def)

lemma createOrder_all_active:
  "createOrder e (all_active d) input =
     (case createOrder e d input of (r, d') \<Rightarrow> (r, all_active d'))"
proof (cases "calculateOrderTotal d (in_items input)")
  case (Inl err)
  then have "calculateOrderTotal (all_active d) (in_items input) = Inl err"
    by (simp add: calculateOrderTotal_all_active)
  with Inl show ?thesis
    by (simp add: createOrder_failed_calculation)
next
  case (Inr c)
  then have c': "calculateOrderTotal (all_active d) (in_items input) = Inr c"
    by (simp add: calculateOrderTotal_all_active)
  obtain rb db where b: "bulkUpdateInventory e d (decrements (in_items input)) = (rb, db)"
    by (cases "bulkUpdateInventory e d (decrements (in_items input))")
  have b': "bulkUpdateInventory e (all_active d) (decrements (in_items input)) =
              (map_sum id (map activate) rb, all_active db)"
    using b bulk_loop_all_active [of e d "[]" "decrements (in_items input)"]
    by (simp add: bulkUpdateInventory_def)
  show ?thesis
    unfolding createOrder_eq [OF Inr b] createOrder_eq [OF c' b']
    by (cases rb) (simp_all add: all_active_other_fields all_active_record_update)
qed

lemma updateInventory_decrement_ok:
  assumes "getProduct d productId = Some p" and "\<not> product_stock p - q < 0"
  shows "updateInventory e d productId q Decrement =
           (Inr (p\<lparr>product_stock := fl_int (product_stock p - q), product_id := productId,
                   product_updated_at := env_now e\<rparr>),
            d\<lparr>products := db_update product_id (products d) productId
                 (p\<lparr>product_stock := fl_int (product_stock p - q), product_id := productId,
                    product_updated_at := env_now e\<rparr>)\<rparr>)"
  using assms
  by (simp add: updateInventory_def updateProduct_def Let_def apply_updates_def no_updates_def
                fl_int_neg_iff)

lemma calculateOrderTotal_single:
  assumes "getProduct d productId = Some p" and "q \<le> product_stock p"
  shows "\<exists>c. calculateOrderTotal d [line productId q] = Inr c"
  using assms by (simp add: calculateOrderTotal_unfold line_def Let_def)

text \<open>
  C10.  Two stores that differ only in the active flags of their products give the same
  result of \<open>calculateOrderTotal\<close> and of \<open>createOrder\<close>, and the stores \<open>createOrder\<close>
  leaves differ only in those flags.  In particular, for a product whose flag is off and
  whose stock is at least the quantity of the one line that orders it, the calculation
  succeeds, \<open>createOrder\<close> returns the order it has added to the store, and the product,
  its flag still off, has the stock less the quantity as a double holds it: the rounded
  difference, which is the difference itself up to \<open>2 ^ 53\<close>.
\<close>

theorem order_path_ignores_active_flag:
  "(all_active d1 = all_active d2 \<longrightarrow>
      calculateOrderTotal d1 items = calculateOrderTotal d2 items \<and>
      fst (createOrder e d1 input) = fst (createOrder e d2 input) \<and>
      all_active (snd (createOrder e d1 input)) = all_active (snd (createOrder e d2 input))) \<and>
   (getProduct d productId = Some p \<and> \<not> product_isActive p \<and> q \<le> product_stock p \<and>
    in_items input' = [line productId q] \<longrightarrow>
      (\<exists>c ord d' p'.
          calculateOrderTotal d [line productId q] = Inr c \<and>
          createOrder e d input' = (Inr ord, d') \<and>
          orders d' = orders d @ [ord] \<and>
          getProduct d' productId = Some p' \<and>
          product_stock p' = fl_int (product_stock p - q) \<and>
          (\<bar>product_stock p - q\<bar> \<le> 2 ^ 53 \<longrightarrow> product_stock p' = product_stock p - q) \<and>
          \<not> product_isActive p'))"
proof (intro conjI impI)
  assume same: "all_active d1 = all_active d2"
  show "calculateOrderTotal d1 items = calculateOrderTotal d2 items"
    using calculateOrderTotal_all_active [of d1 items] calculateOrderTotal_all_active [of d2 items]
      same by simp
  have c: "createOrder e (all_active d1) input = createOrder e (all_active d2) input"
    using same by simp
  from c show "fst (createOrder e d1 input) = fst (createOrder e d2 input)"
    unfolding createOrder_all_active by (simp add: split_beta)
  from c show "all_active (snd (createOrder e d1 input)) = all_active (snd (createOrder e d2 input))"
    unfolding createOrder_all_active by (simp add: split_beta)
next
  assume a: "getProduct d productId = Some p \<and> \<not> product_isActive p \<and> q \<le> product_stock p \<and>
    in_items input' = [line productId q]"
  let ?p' = "p\<lparr>product_stock := fl_int (product_stock p - q), product_id := productId,
                product_updated_at := env_now e\<rparr>"
  let ?db = "d\<lparr>products := db_update product_id (products d) productId ?p'\<rparr>"
  from a have g: "getProduct d productId = Some p" and q: "\<not> product_stock p - q < 0"
    and i: "in_items input' = [line productId q]" and off: "\<not> product_isActive p"
    by simp_all
  from a obtain c where calc: "calculateOrderTotal d [line productId q] = Inr c"
    using calculateOrderTotal_single [of d productId p q] by auto
  have bulk: "bulkUpdateInventory e d (decrements (in_items input')) = (Inr [?p'], ?db)"
    using updateInventory_decrement_ok [OF g q, of e]
    by (simp add: bulkUpdateInventory_def decrements_def i line_def)
  have co: "createOrder e d input' =
              (Inr (new_order e input' c),
               ?db\<lparr>orders := orders d @ [new_order e input' c],
                    order_items_rows := order_items_rows d @ new_rows e input' c\<rparr>)"
    using createOrder_eq [OF _ bulk, of c] calc i by simp
  have g': "getProduct (?db\<lparr>orders := orders d @ [new_order e input' c],
                    order_items_rows := order_items_rows d @ new_rows e input' c\<rparr>) productId =
              Some ?p'"
    using g db_get_update_same [of product_id "products d" productId p ?p']
    by (simp add: getProduct_def)
  have ex: "\<bar>product_stock p - q\<bar> \<le> 2 ^ 53 \<longrightarrow> product_stock ?p' = product_stock p - q"
    by (simp add: fl_int_exact)
  from calc co g' off ex
  show "\<exists>c ord d' p'.
          calculateOrderTotal d [line productId q] = Inr c \<and>
          createOrder e d input' = (Inr ord, d') \<and>
          orders d' = orders d @ [ord] \<and>
          getProduct d' productId = Some p' \<and>
          product_stock p' = fl_int (product_stock p - q) \<and>
          (\<bar>product_stock p - q\<bar> \<le> 2 ^ 53 \<longrightarrow> product_stock p' = product_stock p - q) \<and>
          \<not> product_isActive p'"
    by (intro exI [of _ c] exI [of _ "new_order e input' c"] exI [of _ ?p']
              exI [of _ "?db\<lparr>orders := orders d @ [new_order e input' c],
                    order_items_rows := order_items_rows d @ new_rows e input' c\<rparr>"]) simp
qed

theorem order_path_ignores_active_flag_witness:
  "all_active example_db = all_active (all_active example_db) \<and>
   calculateOrderTotal example_db [line ''p2'' 1] =
     calculateOrderTotal (all_active example_db) [line ''p2'' 1] \<and>
   fst (createOrder example_env example_db (example_input [line ''p2'' 1])) =
     fst (createOrder example_env (all_active example_db) (example_input [line ''p2'' 1])) \<and>
   getProduct example_db ''p2'' = Some gadget \<and> \<not> product_isActive gadget \<and>
   1 \<le> product_stock gadget \<and> \<bar>product_stock gadget - 1\<bar> \<le> 2 ^ 53 \<and>
   map_sum id calc_total (calculateOrderTotal example_db [line ''p2'' 1]) = Inr 770 \<and>
   map order_total
     (orders (snd (createOrder example_env example_db (example_input [line ''p2'' 1])))) = [770] \<and>
   getProduct (snd (createOrder example_env example_db (example_input [line ''p2'' 1]))) ''p2'' =
     Some (gadget\<lparr>product_stock := 0, product_updated_at := 1710504000000\<rparr>)"
proof -
  let ?input = "example_input [line ''p2'' 1]"
  have s: "all_active example_db = all_active (all_active example_db)" by code_simp
  have g: "getProduct example_db ''p2'' = Some gadget" by code_simp
  have f: "\<not> product_isActive gadget" "1 \<le> product_stock gadget"
    "\<bar>product_stock gadget - 1\<bar> \<le> 2 ^ 53"
    by (simp_all add: gadget_def)
  have i: "in_items ?input = [line ''p2'' 1]" by (simp add: example_input_def)
  have t: "map_sum id calc_total (calculateOrderTotal example_db [line ''p2'' 1]) = Inr 770"
    by code_simp
  have o: "map order_total (orders (snd (createOrder example_env example_db ?input))) = [770]"
    by code_simp
  have p: "getProduct (snd (createOrder example_env example_db ?input)) ''p2'' =
             Some (gadget\<lparr>product_stock := 0, product_updated_at := 1710504000000\<rparr>)"
    by code_simp
  from order_path_ignores_active_flag
         [of example_db "all_active example_db" "[line ''p2'' 1]" example_env ?input
             example_db "''p2''" gadget 1 ?input] s g f i
  have "calculateOrderTotal example_db [line ''p2'' 1] =
          calculateOrderTotal (all_active example_db) [line ''p2'' 1] \<and>
        fst (createOrder example_env example_db ?input) =
          fst (createOrder example_env (all_active example_db) ?input)"
    by blast
  with s g f t o p show ?thesis by simp
qed

section \<open>Revenue statistics\<close>

text \<open>
  The start of a period is computed twice: for now, and again for the start just computed.
  Where the second computation returns its argument, no order lies in the previous window
  and both trends are 0.
\<close>

lemma setHours0_idem: "setHours0 (setHours0 t) = setHours0 t"
  by (simp add: setHours0_def MakeDate_def DayNumber_def msPerDay_def)

lemma getPeriodStart_Day_idem: "getPeriodStart (getPeriodStart t Day) Day = getPeriodStart t Day"
  by (simp add: getPeriodStart_def setHours0_idem)

lemma Math_round_zero: "Math_round 0 = 0"
proof -
  have "\<lfloor>1 / 2 :: rat\<rfloor> = 0" by (rule floor_unique) simp_all
  then show ?thesis by (simp add: Math_round_def)
qed

lemma no_previous_window:
  assumes "getPeriodStart (getPeriodStart (env_now e) p) p = getPeriodStart (env_now e) p"
  shows "trend_revenue (getRevenueStats e d p) = 0 \<and> trend_orders (getRevenueStats e d p) = 0"
proof -
  have "filter (\<lambda>ord. order_created_at ord \<ge> getPeriodStart (env_now e) p \<and>
                      order_created_at ord < getPeriodStart (env_now e) p) (orders d) = []"
    by (simp add: filter_empty_conv)
  then show ?thesis
    using assms by (simp add: getRevenueStats_def Let_def Math_round_zero)
qed

text \<open>
  C6, what the code computes.  For the period of a day, the previous window is empty and
  both trends are 0, whatever the orders and the time.  On 15 March 2024, for the period of
  a month, the start of the period is 1 March, and so is the start computed for the
  previous period; the order of 20 February, of total 1000, lies in the month before,
  the two orders of March give a revenue of 3000, and the trends returned are 0 and 0.
  The same holds for the periods of a week and of a year.
\<close>

theorem getRevenueStats_previous_window_is_empty:
  "trend_revenue (getRevenueStats e d Day) = 0 \<and> trend_orders (getRevenueStats e d Day) = 0 \<and>
   getPeriodStart (env_now example_env) Month = 1709251200000 \<and>
   getPeriodStart (getPeriodStart (env_now example_env) Month) Month = 1709251200000 \<and>
   map order_total (filter (\<lambda>ord. 1706745600000 \<le> order_created_at ord \<and>
                                 order_created_at ord < 1709251200000) (orders analytics_db)) =
     [1000] \<and>
   totalRevenue (getRevenueStats example_env analytics_db Month) = 3000 \<and>
   totalOrders (getRevenueStats example_env analytics_db Month) = 2 \<and>
   trend_revenue (getRevenueStats example_env analytics_db Month) = 0 \<and>
   trend_orders (getRevenueStats example_env analytics_db Month) = 0 \<and>
   getPeriodStart (getPeriodStart (env_now example_env) Week) Week =
     getPeriodStart (env_now example_env) Week \<and>
   getPeriodStart (getPeriodStart (env_now example_env) Year) Year =
     getPeriodStart (env_now example_env) Year \<and>
   trend_revenue (getRevenueStats example_env analytics_db Week) = 0 \<and>
   trend_revenue (getRevenueStats example_env analytics_db Year) = 0"
proof -
  have w: "getPeriodStart (getPeriodStart (env_now example_env) Week) Week =
             getPeriodStart (env_now example_env) Week"
    by code_simp
  have y: "getPeriodStart (getPeriodStart (env_now example_env) Year) Year =
             getPeriodStart (env_now example_env) Year"
    by code_simp
  have tw: "trend_revenue (getRevenueStats example_env analytics_db Week) = 0"
    using no_previous_window [OF w] by simp
  have ty: "trend_revenue (getRevenueStats example_env analytics_db Year) = 0"
    using no_previous_window [OF y] by simp
  have a: "trend_revenue (getRevenueStats e d Day) = 0 \<and> trend_orders (getRevenueStats e d Day) = 0"
    by (rule no_previous_window) (rule getPeriodStart_Day_idem)
  have b: "getPeriodStart (env_now example_env) Month = 1709251200000" by code_simp
  have c: "getPeriodStart (getPeriodStart (env_now example_env) Month) Month = 1709251200000"
    by code_simp
  have f: "map order_total (filter (\<lambda>ord. 1706745600000 \<le> order_created_at ord \<and>
                                 order_created_at ord < 1709251200000) (orders analytics_db)) =
     [1000]"
    by code_simp
  have g: "totalRevenue (getRevenueStats example_env analytics_db Month) = 3000" by code_simp
  have h: "totalOrders (getRevenueStats example_env analytics_db Month) = 2" by code_simp
  have i: "trend_revenue (getRevenueStats example_env analytics_db Month) = 0" by code_simp
  have j: "trend_orders (getRevenueStats example_env analytics_db Month) = 0" by code_simp
  from a b c f g h i j w y tw ty show ?thesis by simp
qed

end
